theory Spec2Isabelle
  imports Main "HOL-Library.AList" "HOL-Library.Word"
begin

section \<open>Data model\<close>

text \<open>
  The task scheduler's control service (\<^verbatim>\<open>task/mock/task_control_service.go\<close>)
  keeps, behind one mutex, the in-flight runs of every task, the registered tasks, one
  queue of manual runs and the store of finished runs. The methods that read or change
  this state hold the mutex for their whole body (\<^verbatim>\<open>SetManualRuns\<close> takes no lock), so
  a method is a function from the service state to a result and the next state.

  Conventions of the embedding:
  \<^item> \<^verbatim>\<open>influxdb.ID\<close> is a \<^verbatim>\<open>uint64\<close>: a 64-bit word.
  \<^item> A \<^verbatim>\<open>time.Time\<close> is its number of nanoseconds since the Unix epoch, an
    unbounded \<open>int\<close>; \<^verbatim>\<open>t.Unix()\<close> is the floor of the seconds and
    \<^verbatim>\<open>time.Unix(sec, 0)\<close> is \<open>sec\<close> seconds.
  \<^item> An \<^verbatim>\<open>int64\<close> is an \<open>int\<close>; the two \<^verbatim>\<open>int64\<close> additions of the
    source are written with their wrap-around (\<open>wrap64\<close>).
  \<^item> A Go map from run IDs to runs that the code iterates over is an association list
    (\<open>AList.update\<close> is the assignment \<^verbatim>\<open>m[k] = v\<close>, \<open>AList.delete\<close> is
    \<^verbatim>\<open>delete(m, k)\<close>); the list order stands for the iteration order, which Go
    leaves open. The other maps are partial functions.
  \<^item> Runs and tasks are stored by value: the model does not track a pointer that the
    caller keeps to a run or task it handed over.
  \<^item> A panic, a returned error and a value are the three outcomes of a method; a
    panic is the error \<open>Panic\<close>, and every outcome comes with the state the service is
    left in.
\<close>

type_synonym ID = "64 word"
type_synonym Time = int
type_synonym int64 = int

definition wrap64 :: "int \<Rightarrow> int64" where
  "wrap64 x = (x + 2 ^ 63) mod 2 ^ 64 - 2 ^ 63"

definition Unix :: "Time \<Rightarrow> int64" where
  "Unix t = t div 1000000000"

definition time_Unix :: "int64 \<Rightarrow> int \<Rightarrow> Time" where
  "time_Unix sec nsec = sec * 1000000000 + nsec"

text \<open>The zero \<^verbatim>\<open>time.Time\<close> is January 1 of year 1, 00:00:00 UTC.\<close>

definition zeroTime :: Time where
  "zeroTime = - 62135596800 * 1000000000"

record LogEntry =
  Log_RunID :: ID
  Log_Time :: string
  Message :: string

text \<open>
  \<^verbatim>\<open>influxdb.Run\<close>: the fields the service reads or writes, and the parent task ID
  (the type is declared outside the service's file).
\<close>

record Run =
  Run_ID :: ID
  Run_TaskID :: ID
  ScheduledFor :: Time
  StartedAt :: Time
  FinishedAt :: Time
  Status :: string
  Log :: "LogEntry list"

record Task =
  Task_ID :: ID
  Every :: string
  Cron :: string
  Offset :: string
  LatestCompleted :: string

record QueuedRun =
  TaskID :: ID
  RunID :: ID
  Now :: int64

record RunCreation =
  Created :: QueuedRun
  NextDue :: int64
  HasQueue :: bool

datatype error =
    Panic string
  | ErrInvalidTaskID
  | ErrRunNotDueYet int64
  | ErrRunNotFound
  | ErrInvalidSchedule
  | ErrExternal string

text \<open>
  \<^verbatim>\<open>backend.RunStatus\<close> is an integer type with five named values; any other
  integer is \<open>RunStatusOther\<close>, which \<^verbatim>\<open>UpdateRunState\<close> rejects before it prints
  the status.
\<close>

datatype RunStatus =
    RunStarted | RunSuccess | RunFail | RunCanceled | RunScheduled | RunStatusOther int

text \<open>
  Modelled from the spec: the \<^verbatim>\<open>String\<close> method of \<^verbatim>\<open>backend.RunStatus\<close>
  (package \<^verbatim>\<open>task/backend\<close>) is not among the sources; the names are the five
  statuses of the run entity.
\<close>

fun RunStatus_String :: "RunStatus \<Rightarrow> string" where
  "RunStatus_String RunStarted = ''started''"
| "RunStatus_String RunSuccess = ''success''"
| "RunStatus_String RunFail = ''failed''"
| "RunStatus_String RunCanceled = ''canceled''"
| "RunStatus_String RunScheduled = ''scheduled''"
| "RunStatus_String (RunStatusOther n) = ''unknown''"

text \<open>
  What the service calls outside its own file is a parameter of the model: the methods
  of \<^verbatim>\<open>influxdb.ID\<close> and \<^verbatim>\<open>influxdb.Task\<close>, the ID generator, the cron library
  (a parsed schedule is its \<^verbatim>\<open>Next\<close> function) and the \<^verbatim>\<open>time\<close> package with the
  RFC 3339 layouts. \<open>idgen_ID n\<close> is the ID that the \<open>n\<close>-th call of
  \<^verbatim>\<open>idgen.ID()\<close> returns.
\<close>

type_synonym Schedule = "Time \<Rightarrow> Time"

record Lib =
  ID_Valid :: "ID \<Rightarrow> bool"
  ID_String :: "ID \<Rightarrow> string"
  idgen_ID :: "nat \<Rightarrow> ID"
  Task_EffectiveCron :: "Task \<Rightarrow> string"
  cron_Parse :: "string \<Rightarrow> error + Schedule"
  time_Parse_RFC3339 :: "string \<Rightarrow> error + Time"
  time_Format_RFC3339 :: "Time \<Rightarrow> string"
  time_Format_RFC3339Nano :: "Time \<Rightarrow> string"
  time_ParseDuration :: "string \<Rightarrow> error + int64"

record TaskControlService =
  runs :: "ID \<rightharpoonup> (ID \<times> Run) list"
  created :: "string \<rightharpoonup> QueuedRun"
  tasks :: "ID \<rightharpoonup> Task"
  manualRuns :: "Run list"
  totalRunsCreated :: "ID \<rightharpoonup> int"
  finishedRuns :: "ID \<rightharpoonup> Run"
  idgen_calls :: nat

definition NewTaskControlService :: TaskControlService where
  "NewTaskControlService =
     \<lparr>runs = Map.empty, created = Map.empty, tasks = Map.empty, manualRuns = [],
      totalRunsCreated = Map.empty, finishedRuns = Map.empty, idgen_calls = 0\<rparr>"

section \<open>Operations\<close>

definition SetTask :: "TaskControlService \<Rightarrow> Task \<Rightarrow> TaskControlService" where
  "SetTask d task = d\<lparr>tasks := (tasks d)(Task_ID task \<mapsto> task)\<rparr>"

definition SetManualRuns :: "TaskControlService \<Rightarrow> Run list \<Rightarrow> TaskControlService" where
  "SetManualRuns d rs = d\<lparr>manualRuns := rs\<rparr>"

text \<open>\<^verbatim>\<open>d.runs[tid]\<close> read as a map: a missing entry is the nil map, which is empty.\<close>

definition inflight :: "TaskControlService \<Rightarrow> ID \<Rightarrow> (ID \<times> Run) list" where
  "inflight d tid = (case runs d tid of None \<Rightarrow> [] | Some rs \<Rightarrow> rs)"

text \<open>
  Lines 115 to 125 and 257 to 267: \<^verbatim>\<open>latest\<close> starts at the Unix second of
  \<^verbatim>\<open>LatestCompleted\<close> when that parses and at 0 otherwise, and the loop raises it to
  the Unix second of every in-flight run that is later.
\<close>

definition latest0 :: "Lib \<Rightarrow> Task \<Rightarrow> int64" where
  "latest0 X task =
     (case time_Parse_RFC3339 X (LatestCompleted task) of
        Inr lt \<Rightarrow> Unix lt
      | Inl err \<Rightarrow> 0)"

definition latest_step :: "ID \<times> Run \<Rightarrow> int64 \<Rightarrow> int64" where
  "latest_step kr latest =
     (if Unix (ScheduledFor (snd kr)) > latest then Unix (ScheduledFor (snd kr)) else latest)"

definition latest_of :: "Lib \<Rightarrow> Task \<Rightarrow> (ID \<times> Run) list \<Rightarrow> int64" where
  "latest_of X task rs = fold latest_step rs (latest0 X task)"

text \<open>Lines 129 to 135 and 271 to 277: the offset, in nanoseconds, 0 when it does not parse.\<close>

definition offset_of :: "Lib \<Rightarrow> Task \<Rightarrow> int64" where
  "offset_of X task =
     (if Offset task \<noteq> ''''
      then (case time_ParseDuration X (Offset task) of Inr toff \<Rightarrow> toff | Inl err \<Rightarrow> 0)
      else 0)"

definition newRun :: "ID \<Rightarrow> Time \<Rightarrow> Run" where
  "newRun runID scheduledFor =
     \<lparr>Run_ID = runID, Run_TaskID = 0, ScheduledFor = scheduledFor, StartedAt = zeroTime,
      FinishedAt = zeroTime, Status = '''', Log = []\<rparr>"

definition createNextRun ::
  "Lib \<Rightarrow> TaskControlService \<Rightarrow> Task \<Rightarrow> int64 \<Rightarrow> (error + RunCreation) \<times> TaskControlService"
where
  "createNextRun X t task now =
     (case cron_Parse X (Task_EffectiveCron X task) of
        Inl err \<Rightarrow> (Inl err, t)
      | Inr sch \<Rightarrow>
          let latest = latest_of X task (inflight t (Task_ID task));
              nextScheduled = sch (time_Unix latest 0);
              nextScheduledUnix = Unix nextScheduled;
              offset = offset_of X task;
              dueAt = wrap64 (nextScheduledUnix + offset)
          in if dueAt > now then (Inl (ErrRunNotDueYet dueAt), t)
             else
               let runID = idgen_ID X (idgen_calls t);
                   rs = AList.update runID (newRun runID nextScheduled) (inflight t (Task_ID task))
               in (Inr \<lparr>Created = \<lparr>TaskID = 0, RunID = runID, Now = nextScheduledUnix\<rparr>,
                        NextDue = wrap64 (Unix (sch nextScheduled) + offset),
                        HasQueue = False\<rparr>,
                   t\<lparr>runs := (runs t)(Task_ID task \<mapsto> rs),
                     idgen_calls := Suc (idgen_calls t)\<rparr>))"

text \<open>
  \<^verbatim>\<open>nextDueRun\<close> does not check that the task is registered: for an unknown ID
  \<^verbatim>\<open>task\<close> is nil and reading its fields is a nil pointer dereference.
\<close>

definition nextDueRun :: "Lib \<Rightarrow> TaskControlService \<Rightarrow> ID \<Rightarrow> error + int64" where
  "nextDueRun X d taskID =
     (case tasks d taskID of
        None \<Rightarrow> Inl (Panic ''runtime error: invalid memory address or nil pointer dereference'')
      | Some task \<Rightarrow>
          (case cron_Parse X (Task_EffectiveCron X task) of
             Inl err \<Rightarrow> Inl err
           | Inr sch \<Rightarrow>
               let latest = latest_of X task (inflight d (Task_ID task));
                   nextScheduled = sch (time_Unix latest 0);
                   nextScheduledUnix = Unix nextScheduled;
                   offset = offset_of X task
               in Inr (wrap64 (nextScheduledUnix + offset))))"

definition NextDueRun :: "Lib \<Rightarrow> TaskControlService \<Rightarrow> ID \<Rightarrow> error + int64" where
  "NextDueRun X d taskID = nextDueRun X d taskID"

text \<open>\<^verbatim>\<open>d.totalRunsCreated[taskID]++\<close>: a missing entry counts as 0.\<close>

definition increment :: "(ID \<rightharpoonup> int) \<Rightarrow> ID \<Rightarrow> (ID \<rightharpoonup> int)" where
  "increment counts taskID =
     (case counts taskID of
        None \<Rightarrow> counts(taskID \<mapsto> 1)
      | Some n \<Rightarrow> counts(taskID \<mapsto> n + 1))"

text \<open>
  The manual branch of \<^verbatim>\<open>CreateNextRun\<close> reads the run map at \<^verbatim>\<open>tid\<close>, assigns
  the run into it (in place when the map exists) and stores the map at
  \<^verbatim>\<open>task.ID\<close>; \<^verbatim>\<open>next, _ := d.nextDueRun(...)\<close> drops the error, and
  \<^verbatim>\<open>next\<close> is then 0.
\<close>

definition CreateNextRun ::
  "Lib \<Rightarrow> TaskControlService \<Rightarrow> ID \<Rightarrow> int64 \<Rightarrow> (error + RunCreation) \<times> TaskControlService"
where
  "CreateNextRun X d taskID now =
     (if \<not> ID_Valid X taskID then (Inl ErrInvalidTaskID, d)
      else
        case tasks d taskID of
          None \<Rightarrow> (Inl (Panic (''meta not set for task with ID '' @ ID_String X taskID)), d)
        | Some task \<Rightarrow>
            (case manualRuns d of
               run # rest \<Rightarrow>
                 let rs = AList.update (Run_ID run) run (inflight d taskID);
                     runs' = (case runs d taskID of
                                None \<Rightarrow> (runs d)(Task_ID task \<mapsto> rs)
                              | Some old \<Rightarrow> (runs d)(taskID \<mapsto> rs, Task_ID task \<mapsto> rs));
                     d1 = d\<lparr>manualRuns := rest, runs := runs'\<rparr>;
                     next = (case nextDueRun X d1 taskID of Inr n \<Rightarrow> n | Inl err \<Rightarrow> 0);
                     rc = \<lparr>Created = \<lparr>TaskID = Task_ID task, RunID = Run_ID run,
                                       Now = Unix (ScheduledFor run)\<rparr>,
                           NextDue = next,
                           HasQueue = (rest \<noteq> [])\<rparr>
                 in (Inr rc,
                     d1\<lparr>created := (created d1)
                          (ID_String X taskID @ ID_String X (RunID (Created rc)) \<mapsto> Created rc),
                        totalRunsCreated := increment (totalRunsCreated d1) taskID\<rparr>)
             | [] \<Rightarrow>
                 (case createNextRun X d task now of
                    (Inl err, d1) \<Rightarrow> (Inl err, d1)
                  | (Inr rc0, d1) \<Rightarrow>
                      let rc = rc0\<lparr>Created := (Created rc0)\<lparr>TaskID := taskID\<rparr>\<rparr>
                      in (Inr rc,
                          d1\<lparr>created := (created d1)
                               (ID_String X taskID @ ID_String X (RunID (Created rc)) \<mapsto> Created rc),
                             totalRunsCreated := increment (totalRunsCreated d1) taskID\<rparr>))))"

definition CreateRun ::
  "Lib \<Rightarrow> TaskControlService \<Rightarrow> ID \<Rightarrow> Time \<Rightarrow> (error + Run) \<times> TaskControlService"
where
  "CreateRun X t taskID scheduledFor =
     (let runID = idgen_ID X (idgen_calls t);
          rs = AList.update runID (newRun runID scheduledFor) (inflight t taskID)
      in (Inr (newRun runID scheduledFor),
          t\<lparr>runs := (runs t)(taskID \<mapsto> rs), idgen_calls := Suc (idgen_calls t)\<rparr>))"

text \<open>
  \<^verbatim>\<open>FinishRun\<close> reads the run and the task without checking either; the first use of
  a nil one (\<^verbatim>\<open>r.ScheduledFor\<close> on line 204, \<^verbatim>\<open>t.LatestCompleted\<close> on line 206)
  is a nil pointer dereference, after the \<^verbatim>\<open>delete\<close> of line 202 has run.
\<close>

definition finish :: "TaskControlService \<Rightarrow> Lib \<Rightarrow> ID \<Rightarrow> ID \<Rightarrow> Run \<Rightarrow> TaskControlService" where
  "finish d X tid rid r =
     d\<lparr>finishedRuns := (finishedRuns d)(rid \<mapsto> r),
       created := (created d)(ID_String X tid @ ID_String X rid := None)\<rparr>"

definition FinishRun ::
  "Lib \<Rightarrow> TaskControlService \<Rightarrow> ID \<Rightarrow> ID \<Rightarrow> (error + Run) \<times> TaskControlService"
where
  "FinishRun X d tid rid =
     (let d1 = (case runs d tid of
                  None \<Rightarrow> d
                | Some rs \<Rightarrow> d\<lparr>runs := (runs d)(tid \<mapsto> AList.delete rid rs)\<rparr>)
      in case map_of (inflight d tid) rid of
           None \<Rightarrow>
             (Inl (Panic ''runtime error: invalid memory address or nil pointer dereference''), d1)
         | Some r \<Rightarrow>
             (case tasks d tid of
                None \<Rightarrow>
                  (Inl (Panic ''runtime error: invalid memory address or nil pointer dereference''),
                   d1)
              | Some t \<Rightarrow>
                  let schedFor = time_Format_RFC3339 X (ScheduledFor r)
                  in if LatestCompleted t \<noteq> ''''
                     then (case time_Parse_RFC3339 X (LatestCompleted t) of
                             Inl err \<Rightarrow> (Inl err, d1)
                           | Inr latest \<Rightarrow>
                               if ScheduledFor r > latest
                               then (Inr r,
                                     finish (d1\<lparr>tasks := (tasks d1)
                                                  (tid \<mapsto> t\<lparr>LatestCompleted := schedFor\<rparr>)\<rparr>)
                                       X tid rid r)
                               else (Inr r, finish d1 X tid rid r))
                     else (Inr r, finish d1 X tid rid r)))"

definition CurrentlyRunning :: "TaskControlService \<Rightarrow> ID \<Rightarrow> Run list" where
  "CurrentlyRunning t taskID = map snd (inflight t taskID)"

definition ManualRuns :: "TaskControlService \<Rightarrow> ID \<Rightarrow> Run list" where
  "ManualRuns t taskID = (if manualRuns t \<noteq> [] then manualRuns t else [])"

text \<open>
  A run is reached through a pointer in the task's run map: assigning to its fields
  changes the entry of the map.
\<close>

definition storeRun :: "TaskControlService \<Rightarrow> ID \<Rightarrow> ID \<Rightarrow> Run \<Rightarrow> TaskControlService" where
  "storeRun d taskID runID run =
     d\<lparr>runs := (runs d)(taskID \<mapsto> AList.update runID run (inflight d taskID))\<rparr>"

definition setStatus :: "RunStatus \<Rightarrow> Run \<Rightarrow> Run" where
  "setStatus state run = run\<lparr>Status := RunStatus_String state\<rparr>"

definition UpdateRunState ::
  "TaskControlService \<Rightarrow> ID \<Rightarrow> ID \<Rightarrow> Time \<Rightarrow> RunStatus \<Rightarrow> error option \<times> TaskControlService"
where
  "UpdateRunState d taskID runID when state =
     (case map_of (inflight d taskID) runID of
        None \<Rightarrow> (Some (Panic ''run state called without a run''), d)
      | Some run \<Rightarrow>
          (case state of
             RunStarted \<Rightarrow>
               (None, storeRun d taskID runID (setStatus state (run\<lparr>StartedAt := when\<rparr>)))
           | RunSuccess \<Rightarrow>
               (None, storeRun d taskID runID (setStatus state (run\<lparr>FinishedAt := when\<rparr>)))
           | RunFail \<Rightarrow>
               (None, storeRun d taskID runID (setStatus state (run\<lparr>FinishedAt := when\<rparr>)))
           | RunCanceled \<Rightarrow>
               (None, storeRun d taskID runID (setStatus state (run\<lparr>FinishedAt := when\<rparr>)))
           | RunScheduled \<Rightarrow>
               (None, storeRun d taskID runID (setStatus state run))
           | RunStatusOther n \<Rightarrow> (Some (Panic ''invalid status''), d)))"

definition appendLog :: "LogEntry \<Rightarrow> Run \<Rightarrow> Run" where
  "appendLog entry run = run\<lparr>Log := Log run @ [entry]\<rparr>"

definition AddRunLog ::
  "Lib \<Rightarrow> TaskControlService \<Rightarrow> ID \<Rightarrow> ID \<Rightarrow> Time \<Rightarrow> string \<Rightarrow> error option \<times> TaskControlService"
where
  "AddRunLog X d taskID runID when log =
     (case map_of (inflight d taskID) runID of
        None \<Rightarrow> (Some (Panic ''cannot add a log to a non existent run''), d)
      | Some run \<Rightarrow>
          (None,
           storeRun d taskID runID
             (appendLog \<lparr>Log_RunID = runID, Log_Time = time_Format_RFC3339Nano X when,
                         Message = log\<rparr> run)))"

section \<open>The effective cron expression\<close>

text \<open>
  Modelled from the spec: \<^verbatim>\<open>TaskEffectiveCron\<close>, the method that
  \<^verbatim>\<open>TestTask_EffectiveCron\<close> calls, is declared in \<^verbatim>\<open>task.go\<close>, which is not
  among the sources. The model follows the resolver's contract: a non-empty \<open>Cron\<close> is
  returned as it is; otherwise \<open>Every\<close> chooses one every-N field by its magnitude
  (seconds below 60 s, minutes below 3600 s, hours from there on), the other fields of
  the seven being fixed; a negative, zero or missing \<open>Every\<close> is an invalid schedule.
  A duration is read as an optional minus sign, a decimal magnitude and one unit among
  \<open>s\<close>, \<open>m\<close>, \<open>h\<close>, \<open>d\<close> and \<open>w\<close>; N is the whole number of units.
\<close>

definition is_digit :: "char \<Rightarrow> bool" where
  "is_digit c = (c \<in> set ''0123456789'')"

definition digit_val :: "char \<Rightarrow> nat" where
  "digit_val c = of_char c - of_char CHR ''0''"

definition digits_val :: "string \<Rightarrow> nat" where
  "digits_val ds = foldl (\<lambda>n c. 10 * n + digit_val c) 0 ds"

definition unit_seconds :: "string \<Rightarrow> int option" where
  "unit_seconds u =
     (if u = ''s'' then Some 1
      else if u = ''m'' then Some 60
      else if u = ''h'' then Some 3600
      else if u = ''d'' then Some 86400
      else if u = ''w'' then Some 604800
      else None)"

definition unsigned_seconds :: "string \<Rightarrow> int option" where
  "unsigned_seconds s =
     (if takeWhile is_digit s = [] then None
      else case unit_seconds (dropWhile is_digit s) of
             None \<Rightarrow> None
           | Some k \<Rightarrow> Some (int (digits_val (takeWhile is_digit s)) * k))"

fun duration_seconds :: "string \<Rightarrow> int option" where
  "duration_seconds [] = None"
| "duration_seconds (c # cs) =
     (if c = CHR ''-'' then map_option uminus (unsigned_seconds cs)
      else unsigned_seconds (c # cs))"

definition digit_char :: "nat \<Rightarrow> char" where
  "digit_char n = char_of (of_char CHR ''0'' + n)"

fun show_nat :: "nat \<Rightarrow> string" where
  "show_nat n = (if n < 10 then [digit_char n] else show_nat (n div 10) @ [digit_char (n mod 10)])"

declare show_nat.simps [simp del]

definition TaskEffectiveCron :: "Task \<Rightarrow> error + string" where
  "TaskEffectiveCron t =
     (if Cron t \<noteq> '''' then Inr (Cron t)
      else case duration_seconds (Every t) of
             None \<Rightarrow> Inl ErrInvalidSchedule
           | Some secs \<Rightarrow>
               if secs \<le> 0 then Inl ErrInvalidSchedule
               else if secs < 60
                 then Inr (''*/'' @ show_nat (nat secs) @ '' */1 */1 * * * *'')
               else if secs < 3600
                 then Inr (''0 */'' @ show_nat (nat (secs div 60)) @ '' */1 * * * *'')
               else Inr (''0 0 */'' @ show_nat (nat (secs div 3600)) @ '' * * * *''))"

section \<open>A library instance and example states\<close>

text \<open>
  One instance of the library, enough to run the model: IDs are valid when non-zero and
  print in decimal, the generator counts from 1000, a task's cron expression is its
  \<open>Cron\<close> or \<open>@every\<close> followed by its \<open>Every\<close>, the cron library knows the
  schedule \<open>@every 10s\<close> (a constant delay: the next time is the current second plus
  ten seconds), and the \<^verbatim>\<open>time\<close> package is tabulated at the instants the examples use.
  As in Go, parsing with the RFC 3339 layout accepts a fractional second, and
  formatting with it prints whole seconds.
\<close>

definition every10s :: Schedule where
  "every10s t = (t div 1000000000) * 1000000000 + 10000000000"

definition exampleParse :: "string \<Rightarrow> error + Time" where
  "exampleParse s =
     (case map_of
        [(''1970-01-01T00:00:10Z'', 10000000000),
         (''1970-01-01T00:00:10.5Z'', 10500000000),
         (''1970-01-01T00:00:20Z'', 20000000000),
         (''1970-01-01T00:00:30Z'', 30000000000)] s of
        Some t \<Rightarrow> Inr t
      | None \<Rightarrow> Inl (ErrExternal ''parsing time: cannot parse''))"

definition exampleFormat :: "Time \<Rightarrow> string" where
  "exampleFormat t =
     (case map_of
        [(10, ''1970-01-01T00:00:10Z''),
         (20, ''1970-01-01T00:00:20Z''),
         (30, ''1970-01-01T00:00:30Z'')] (Unix t) of
        Some s \<Rightarrow> s
      | None \<Rightarrow> ''not tabulated'')"

definition exampleLib :: Lib where
  "exampleLib =
     \<lparr>ID_Valid = (\<lambda>i. i \<noteq> 0),
      ID_String = (\<lambda>i. show_nat (unat i)),
      idgen_ID = (\<lambda>n. of_nat (1000 + n)),
      Task_EffectiveCron =
        (\<lambda>t. if Cron t \<noteq> '''' then Cron t
              else if Every t \<noteq> '''' then ''@every '' @ Every t else ''''),
      cron_Parse =
        (\<lambda>s. if s = ''@every 10s'' then Inr every10s
              else Inl (ErrExternal ''cron: cannot parse'')),
      time_Parse_RFC3339 = exampleParse,
      time_Format_RFC3339 = exampleFormat,
      time_Format_RFC3339Nano = exampleFormat,
      time_ParseDuration =
        (\<lambda>s. if s = ''5s'' then Inr 5000000000
              else Inl (ErrExternal ''time: invalid duration''))\<rparr>"

definition task10s :: Task where
  "task10s = \<lparr>Task_ID = 1, Every = ''10s'', Cron = '''', Offset = '''', LatestCompleted = ''''\<rparr>"

definition service10s :: TaskControlService where
  "service10s = SetTask NewTaskControlService task10s"

text \<open>Two manual runs requested for task 1, and a second task.\<close>

definition manualA :: Run where
  "manualA = (newRun 77 5000000000)\<lparr>Run_TaskID := 1\<rparr>"

definition manualB :: Run where
  "manualB = (newRun 78 6000000000)\<lparr>Run_TaskID := 1\<rparr>"

definition serviceManual :: TaskControlService where
  "serviceManual = SetManualRuns service10s [manualA, manualB]"

definition task2 :: Task where
  "task2 = \<lparr>Task_ID = 2, Every = ''10s'', Cron = '''', Offset = '''', LatestCompleted = ''''\<rparr>"

definition serviceTwo :: TaskControlService where
  "serviceTwo = SetTask service10s task2"

text \<open>The service after the schedule gate has created the first run of task 1 (run 1000, tick 10 s).\<close>

definition serviceRun :: TaskControlService where
  "serviceRun = snd (CreateNextRun exampleLib service10s 1 25)"



definition taskFrac :: Task where
  "taskFrac = task10s\<lparr>LatestCompleted := ''1970-01-01T00:00:10.5Z''\<rparr>"

definition serviceFrac :: TaskControlService where
  "serviceFrac =
     snd (CreateRun exampleLib (SetTask NewTaskControlService taskFrac) 1 10700000000)"

text \<open>
  Task 1 with an offset of five seconds: the schedule's next time after 0 is 10 s, so
  with its offset the task is due at 15 s.
\<close>

definition taskOffset :: Task where
  "taskOffset = task10s\<lparr>Offset := ''5s''\<rparr>"

definition serviceOffset :: TaskControlService where
  "serviceOffset = SetTask NewTaskControlService taskOffset"

text \<open>
  The cron library's \<^verbatim>\<open>SpecSchedule.Next\<close> gives up when it finds no match within five
  years and returns the zero \<^verbatim>\<open>time.Time\<close>. The expression \<open>0 0 0 30 2 *\<close>
  (midnight of 30 February) parses and matches no date, so its \<^verbatim>\<open>Next\<close> is the zero
  time whatever time it is asked about. \<open>neverLib\<close> is the library instance above
  with this expression added.
\<close>

definition neverSchedule :: Schedule where
  "neverSchedule t = zeroTime"

definition neverLib :: Lib where
  "neverLib =
     exampleLib\<lparr>cron_Parse :=
       (\<lambda>s. if s = ''0 0 0 30 2 *'' then Inr neverSchedule else cron_Parse exampleLib s)\<rparr>"

definition taskNever :: Task where
  "taskNever =
     \<lparr>Task_ID = 1, Every = '''', Cron = ''0 0 0 30 2 *'', Offset = '''', LatestCompleted = ''''\<rparr>"

definition serviceNever :: TaskControlService where
  "serviceNever = SetTask NewTaskControlService taskNever"

definition serviceNever1 :: TaskControlService where
  "serviceNever1 = snd (CreateNextRun neverLib serviceNever 1 25)"

definition serviceNever2 :: TaskControlService where
  "serviceNever2 = snd (CreateNextRun neverLib serviceNever1 1 25)"

text \<open>The first run of task 1 after the executor has reported its start at 11 s.\<close>

definition serviceStarted :: TaskControlService where
  "serviceStarted = snd (UpdateRunState serviceRun 1 1000 11000000000 RunStarted)"

text \<open>The tasks of \<^verbatim>\<open>TestTask_EffectiveCron\<close>: only \<open>Every\<close> and \<open>Cron\<close> are set.\<close>

definition testTask :: "string \<Rightarrow> string \<Rightarrow> Task" where
  "testTask every cron =
     \<lparr>Task_ID = 0, Every = every, Cron = cron, Offset = '''', LatestCompleted = ''''\<rparr>"

section \<open>The schedule gate\<close>

lemma createNextRun_cases:
  assumes "cron_Parse X (Task_EffectiveCron X task) = Inr sch"
  shows "createNextRun X t task now =
     (let latest = latest_of X task (inflight t (Task_ID task));
          nextScheduled = sch (time_Unix latest 0);
          offset = offset_of X task;
          dueAt = wrap64 (Unix nextScheduled + offset)
      in if dueAt > now then (Inl (ErrRunNotDueYet dueAt), t)
         else
           (Inr \<lparr>Created = \<lparr>TaskID = 0, RunID = idgen_ID X (idgen_calls t),
                             Now = Unix nextScheduled\<rparr>,
                 NextDue = wrap64 (Unix (sch nextScheduled) + offset),
                 HasQueue = False\<rparr>,
            t\<lparr>runs := (runs t)(Task_ID task \<mapsto>
                  AList.update (idgen_ID X (idgen_calls t))
                    (newRun (idgen_ID X (idgen_calls t)) nextScheduled)
                    (inflight t (Task_ID task))),
              idgen_calls := Suc (idgen_calls t)\<rparr>))"
  using assms by (simp add: createNextRun_def Let_def)

lemma CreateNextRun_regular:
  assumes "ID_Valid X taskID" and "tasks d taskID = Some task" and "manualRuns d = []"
  shows "CreateNextRun X d taskID now =
    (case createNextRun X d task now of
       (Inl err, d1) \<Rightarrow> (Inl err, d1)
     | (Inr rc0, d1) \<Rightarrow>
         let rc = rc0\<lparr>Created := (Created rc0)\<lparr>TaskID := taskID\<rparr>\<rparr>
         in (Inr rc,
             d1\<lparr>created := (created d1)
                  (ID_String X taskID @ ID_String X (RunID (Created rc)) \<mapsto> Created rc),
                totalRunsCreated := increment (totalRunsCreated d1) taskID\<rparr>))"
  using assms by (simp add: CreateNextRun_def)

lemma exampleLib_valid: "ID_Valid exampleLib 1"
  by (simp add: exampleLib_def)

lemma service10s_task: "tasks service10s 1 = Some task10s"
  by (simp add: service10s_def SetTask_def NewTaskControlService_def task10s_def)

lemma service10s_queue: "manualRuns service10s = []"
  by (simp add: service10s_def SetTask_def NewTaskControlService_def)

lemma task10s_schedule: "cron_Parse exampleLib (Task_EffectiveCron exampleLib task10s) = Inr every10s"
  by (simp add: exampleLib_def task10s_def)

lemma service10s_inflight: "inflight service10s k = []"
  by (simp add: inflight_def service10s_def SetTask_def NewTaskControlService_def)

lemma task10s_latest0: "latest0 exampleLib task10s = 0"
  by (simp add: latest0_def exampleLib_def task10s_def exampleParse_def)

lemma task10s_offset: "offset_of exampleLib task10s = 0"
  by (simp add: offset_of_def task10s_def)

lemma task10s_ID: "Task_ID task10s = 1"
  by (simp add: task10s_def)

text \<open>
  C1 (due-time gating), at a failing input. The claim has \<open>CreateNextRun\<close> gate at
  \<open>dueAt\<close>, the schedule's next time after \<open>latest\<close> plus the task's offset. Task 1
  runs every ten seconds with an offset of five seconds, has no watermark and nothing in
  flight: the next time after 0 is 10 s, the offset parses to 5 s (5000000000 ns), so
  the task is due at 15 s. At \<open>now\<close> = 15 the code does not create the run: lines 133
  and 136 add the offset's count of nanoseconds to the Unix second of the next time, and
  \<open>CreateNextRun\<close> returns \<open>ErrRunNotDueYet 5000000010\<close> and leaves the state as it
  was; \<open>NextDueRun\<close>, documented to return a Unix timestamp, returns the same number.
\<close>

theorem C1_offset_added_in_nanoseconds:
  "tasks serviceOffset 1 = Some taskOffset \<and>
   manualRuns serviceOffset = [] \<and>
   inflight serviceOffset 1 = [] \<and>
   LatestCompleted taskOffset = '''' \<and>
   cron_Parse exampleLib (Task_EffectiveCron exampleLib taskOffset) = Inr every10s \<and>
   every10s (time_Unix 0 0) = 10000000000 \<and>
   time_ParseDuration exampleLib (Offset taskOffset) = Inr 5000000000 \<and>
   Unix (every10s (time_Unix 0 0) + 5000000000) = 15 \<and>
   CreateNextRun exampleLib serviceOffset 1 15 =
     (Inl (ErrRunNotDueYet 5000000010), serviceOffset) \<and>
   NextDueRun exampleLib serviceOffset 1 = Inr 5000000010"
proof -
  have task: "tasks serviceOffset 1 = Some taskOffset"
    and queue: "manualRuns serviceOffset = []"
    and none: "inflight serviceOffset 1 = []"
    by (simp_all add: serviceOffset_def SetTask_def NewTaskControlService_def taskOffset_def
        task10s_def inflight_def)
  have fields: "Task_ID taskOffset = 1" "LatestCompleted taskOffset = ''''"
    "Offset taskOffset = ''5s''"
    by (simp_all add: taskOffset_def task10s_def)
  have sch: "cron_Parse exampleLib (Task_EffectiveCron exampleLib taskOffset) = Inr every10s"
    by (simp add: exampleLib_def taskOffset_def task10s_def)
  have dur: "time_ParseDuration exampleLib ''5s'' = Inr 5000000000"
    by (simp add: exampleLib_def)
  have latest: "latest_of exampleLib taskOffset [] = 0"
    by (simp add: latest_of_def latest0_def fields exampleLib_def exampleParse_def)
  have offset: "offset_of exampleLib taskOffset = 5000000000"
    by (simp add: offset_of_def fields dur)
  have next10: "every10s (time_Unix 0 0) = 10000000000"
    by (simp add: every10s_def time_Unix_def)
  have due: "wrap64 (Unix 10000000000 + 5000000000) = 5000000010"
    by (simp add: Unix_def wrap64_def)
  have gate: "createNextRun exampleLib serviceOffset taskOffset 15 =
      (Inl (ErrRunNotDueYet 5000000010), serviceOffset)"
    by (simp add: createNextRun_cases [OF sch] Let_def fields(1) none latest offset next10 due)
  have a: "CreateNextRun exampleLib serviceOffset 1 15 =
      (Inl (ErrRunNotDueYet 5000000010), serviceOffset)"
    by (simp add: CreateNextRun_regular [OF exampleLib_valid task queue] gate)
  have b: "NextDueRun exampleLib serviceOffset 1 = Inr 5000000010"
    using task
    by (simp add: NextDueRun_def nextDueRun_def sch Let_def fields(1) none latest offset
        next10 due)
  have c: "Unix (every10s (time_Unix 0 0) + 5000000000) = 15"
    by (simp add: next10 Unix_def)
  from task queue none sch next10 a b c show ?thesis
    by (simp add: fields dur)
qed

lemma nextDueRun_cases:
  assumes "tasks d taskID = Some task"
  shows "nextDueRun X d taskID =
    (case cron_Parse X (Task_EffectiveCron X task) of
       Inl err \<Rightarrow> Inl err
     | Inr sch \<Rightarrow>
         Inr (wrap64 (Unix (sch (time_Unix (latest_of X task (inflight d (Task_ID task))) 0))
                      + offset_of X task)))"
  using assms by (simp add: nextDueRun_def Let_def split: sum.splits)

text \<open>
  C10 (the due-time query agrees with the schedule gate). For a registered task with a valid ID
  and an empty manual queue: when the schedule parses, \<open>NextDueRun\<close> returns the
  \<^verbatim>\<open>int64\<close> sum of the Unix second of the schedule's next time after \<open>latest\<close> and
  the offset; whatever timestamp \<open>NextDueRun\<close> returns, \<open>CreateNextRun\<close> returns
  \<open>ErrRunNotDueYet\<close> exactly when that timestamp is after \<open>now\<close>, and then with that
  timestamp; and when \<open>NextDueRun\<close> fails, \<open>CreateNextRun\<close> fails with the same error.
\<close>

theorem C10_NextDueRun_is_the_gate:
  assumes valid: "ID_Valid X taskID"
    and task: "tasks d taskID = Some task"
    and queue: "manualRuns d = []"
  shows
    "(\<forall>sch. cron_Parse X (Task_EffectiveCron X task) = Inr sch \<longrightarrow>
        NextDueRun X d taskID =
          Inr (wrap64 (Unix (sch (time_Unix (latest_of X task (inflight d (Task_ID task))) 0))
                       + offset_of X task))) \<and>
     (\<forall>due. NextDueRun X d taskID = Inr due \<longrightarrow>
        ((\<exists>x. fst (CreateNextRun X d taskID now) = Inl (ErrRunNotDueYet x)) = (due > now)) \<and>
        (\<forall>x. fst (CreateNextRun X d taskID now) = Inl (ErrRunNotDueYet x) \<longrightarrow> x = due)) \<and>
     (\<forall>err. NextDueRun X d taskID = Inl err \<longrightarrow> fst (CreateNextRun X d taskID now) = Inl err)"
proof (cases "cron_Parse X (Task_EffectiveCron X task)")
  case (Inl err)
  then show ?thesis
    by (simp add: NextDueRun_def nextDueRun_cases [OF task]
        CreateNextRun_regular [OF valid task queue] createNextRun_def)
next
  case (Inr sch)
  then show ?thesis
    by (simp add: NextDueRun_def nextDueRun_cases [OF task]
        CreateNextRun_regular [OF valid task queue] createNextRun_cases [OF Inr] Let_def)
qed

lemma service10s_latest_of: "latest_of exampleLib task10s (inflight service10s k) = 0"
  by (simp add: latest_of_def service10s_inflight task10s_latest0)

theorem C10_NextDueRun_is_the_gate_witness:
  "ID_Valid exampleLib 1 \<and> tasks service10s 1 = Some task10s \<and> manualRuns service10s = [] \<and>
   NextDueRun exampleLib service10s 1 = Inr 10 \<and>
   (\<exists>x. fst (CreateNextRun exampleLib service10s 1 5) = Inl (ErrRunNotDueYet x)) \<and>
   \<not> (\<exists>x. fst (CreateNextRun exampleLib service10s 1 25) = Inl (ErrRunNotDueYet x))"
proof -
  note agree = C10_NextDueRun_is_the_gate [OF exampleLib_valid service10s_task service10s_queue]
  have "NextDueRun exampleLib service10s 1 =
      Inr (wrap64 (Unix (every10s (time_Unix
        (latest_of exampleLib task10s (inflight service10s (Task_ID task10s))) 0))
        + offset_of exampleLib task10s))"
    using agree [of 0, THEN conjunct1] task10s_schedule by blast
  then have due: "NextDueRun exampleLib service10s 1 = Inr 10"
    by (simp add: service10s_latest_of task10s_offset every10s_def time_Unix_def Unix_def
        wrap64_def)
  have a: "\<exists>x. fst (CreateNextRun exampleLib service10s 1 5) = Inl (ErrRunNotDueYet x)"
    using agree [of 5, THEN conjunct2, THEN conjunct1] due by simp
  have b: "\<not> (\<exists>x. fst (CreateNextRun exampleLib service10s 1 25) = Inl (ErrRunNotDueYet x))"
    using agree [of 25, THEN conjunct2, THEN conjunct1] due by simp
  from due a b show ?thesis
    by (simp add: exampleLib_valid service10s_task service10s_queue)
qed

section \<open>Manual runs\<close>

text \<open>
  C5 (manual-run precedence). For a registered task with a valid ID, when the manual
  queue holds \<open>run\<close> in front of \<open>rest\<close>, \<open>CreateNextRun\<close> returns the creation of
  \<open>run\<close> (its ID, its tick, the task's ID), with \<open>HasQueue\<close> true exactly when
  \<open>rest\<close> is not empty; the queue left is \<open>rest\<close>, \<open>run\<close> is in the task's
  in-flight set, and the outcome is the same for every \<open>now\<close>.
\<close>

theorem C5_manual_run_precedence:
  assumes valid: "ID_Valid X taskID"
    and task: "tasks d taskID = Some task"
    and queue: "manualRuns d = run # rest"
  shows
    "(\<exists>rc. fst (CreateNextRun X d taskID now) = Inr rc \<and>
           Created rc = \<lparr>TaskID = Task_ID task, RunID = Run_ID run,
                          Now = Unix (ScheduledFor run)\<rparr> \<and>
           HasQueue rc = (rest \<noteq> [])) \<and>
     manualRuns (snd (CreateNextRun X d taskID now)) = rest \<and>
     map_of (inflight (snd (CreateNextRun X d taskID now)) (Task_ID task)) (Run_ID run) = Some run \<and>
     (\<forall>now'. CreateNextRun X d taskID now' = CreateNextRun X d taskID now)"
  using valid task queue
  by (simp add: CreateNextRun_def Let_def inflight_def update_conv' split: option.splits)

lemma serviceManual_task: "tasks serviceManual 1 = Some task10s"
  by (simp add: serviceManual_def SetManualRuns_def service10s_task)

lemma serviceManual_queue: "manualRuns serviceManual = manualA # [manualB]"
  by (simp add: serviceManual_def SetManualRuns_def)

theorem C5_manual_run_precedence_witness:
  "ID_Valid exampleLib 1 \<and> tasks serviceManual 1 = Some task10s \<and>
   manualRuns serviceManual = manualA # [manualB] \<and>
   (\<exists>rc. fst (CreateNextRun exampleLib serviceManual 1 0) = Inr rc \<and>
         RunID (Created rc) = 77 \<and> HasQueue rc) \<and>
   manualRuns (snd (CreateNextRun exampleLib serviceManual 1 0)) = [manualB]"
proof -
  note served = C5_manual_run_precedence [OF exampleLib_valid serviceManual_task
      serviceManual_queue, of 0]
  have a: "\<exists>rc. fst (CreateNextRun exampleLib serviceManual 1 0) = Inr rc \<and>
         RunID (Created rc) = 77 \<and> HasQueue rc"
    using served [THEN conjunct1] by (auto simp: manualA_def newRun_def)
  have b: "manualRuns (snd (CreateNextRun exampleLib serviceManual 1 0)) = [manualB]"
    using served [THEN conjunct2, THEN conjunct1] .
  from a b show ?thesis
    by (simp add: exampleLib_valid serviceManual_task serviceManual_queue)
qed

section \<open>Effects on the state\<close>


lemma FinishRun_manualRuns: "manualRuns (snd (FinishRun X d tid rid)) = manualRuns d"
  by (simp add: FinishRun_def finish_def Let_def split: option.splits sum.splits)


lemma every10s_0: "every10s 0 = 10000000000"
  by (simp add: every10s_def)

lemma task10s_latest_nil: "latest_of exampleLib task10s [] = 0"
  by (simp add: latest_of_def task10s_latest0)

lemma service10s_idgen: "idgen_ID exampleLib (idgen_calls service10s) = 1000"
  by (simp add: exampleLib_def service10s_def SetTask_def NewTaskControlService_def)

lemma service10s_createNextRun:
  "createNextRun exampleLib service10s task10s 25 =
     (Inr \<lparr>Created = \<lparr>TaskID = 0, RunID = 1000, Now = 10\<rparr>, NextDue = 20, HasQueue = False\<rparr>,
      service10s\<lparr>runs := (runs service10s)(1 \<mapsto> [(1000, newRun 1000 10000000000)]),
                 idgen_calls := Suc (idgen_calls service10s)\<rparr>)"
  by (simp add: createNextRun_cases [OF task10s_schedule] Let_def task10s_latest_nil
      task10s_offset task10s_ID service10s_idgen service10s_inflight
      time_Unix_def every10s_def Unix_def wrap64_def)

lemma serviceRun_fields:
  "inflight serviceRun 1 = [(1000, newRun 1000 10000000000)]"
  "tasks serviceRun = tasks service10s"
  "manualRuns serviceRun = []"
  "idgen_calls serviceRun = 1"
  unfolding serviceRun_def
  by (simp_all add: CreateNextRun_regular [OF exampleLib_valid service10s_task service10s_queue]
      service10s_createNextRun Let_def inflight_def service10s_queue)
     (simp add: service10s_def SetTask_def NewTaskControlService_def)


section \<open>A schedule without a next time\<close>

lemma neverLib_fields:
  "ID_Valid neverLib 1"
  "cron_Parse neverLib (Task_EffectiveCron neverLib taskNever) = Inr neverSchedule"
  "latest0 neverLib taskNever = 0"
  "offset_of neverLib taskNever = 0"
  "idgen_ID neverLib n = of_nat (1000 + n)"
  by (simp_all add: neverLib_def exampleLib_def taskNever_def latest0_def offset_of_def
      exampleParse_def)

lemma Unix_zeroTime: "Unix zeroTime = - 62135596800"
  by (simp add: Unix_def zeroTime_def)

lemma wrap64_zeroTime: "wrap64 (- 62135596800) = - 62135596800"
  by (simp add: wrap64_def)

lemma serviceNever_fields:
  "tasks serviceNever 1 = Some taskNever" "manualRuns serviceNever = []"
  "inflight serviceNever 1 = []" "idgen_calls serviceNever = 0"
  by (simp_all add: serviceNever_def SetTask_def NewTaskControlService_def taskNever_def
      inflight_def)

lemma taskNever_ID: "Task_ID taskNever = 1"
  by (simp add: taskNever_def)

lemma serviceNever_createNextRun:
  "createNextRun neverLib serviceNever taskNever 25 =
     (Inr \<lparr>Created = \<lparr>TaskID = 0, RunID = 1000, Now = - 62135596800\<rparr>,
            NextDue = - 62135596800, HasQueue = False\<rparr>,
      serviceNever\<lparr>runs := (runs serviceNever)(1 \<mapsto> [(1000, newRun 1000 zeroTime)]),
                   idgen_calls := Suc (idgen_calls serviceNever)\<rparr>)"
  by (simp add: createNextRun_cases [OF neverLib_fields(2)] Let_def taskNever_ID
      serviceNever_fields latest_of_def neverLib_fields neverSchedule_def Unix_zeroTime
      wrap64_zeroTime)

lemma serviceNever_first:
  "fst (CreateNextRun neverLib serviceNever 1 25) =
     Inr \<lparr>Created = \<lparr>TaskID = 1, RunID = 1000, Now = - 62135596800\<rparr>,
          NextDue = - 62135596800, HasQueue = False\<rparr>"
  by (simp add: CreateNextRun_regular [OF neverLib_fields(1) serviceNever_fields(1,2)]
      serviceNever_createNextRun Let_def)

lemma serviceNever1_fields:
  "tasks serviceNever1 1 = Some taskNever" "manualRuns serviceNever1 = []"
  "inflight serviceNever1 1 = [(1000, newRun 1000 zeroTime)]" "idgen_calls serviceNever1 = 1"
  unfolding serviceNever1_def
  by (simp_all add: CreateNextRun_regular [OF neverLib_fields(1) serviceNever_fields(1,2)]
      serviceNever_createNextRun Let_def inflight_def serviceNever_fields)

lemma serviceNever1_latest:
  "latest_of neverLib taskNever [(1000, newRun 1000 zeroTime)] = 0"
  by (simp add: latest_of_def latest_step_def neverLib_fields newRun_def Unix_zeroTime)

lemma serviceNever1_createNextRun:
  "createNextRun neverLib serviceNever1 taskNever 25 =
     (Inr \<lparr>Created = \<lparr>TaskID = 0, RunID = 1001, Now = - 62135596800\<rparr>,
            NextDue = - 62135596800, HasQueue = False\<rparr>,
      serviceNever1\<lparr>runs := (runs serviceNever1)
                      (1 \<mapsto> [(1000, newRun 1000 zeroTime), (1001, newRun 1001 zeroTime)]),
                    idgen_calls := Suc (idgen_calls serviceNever1)\<rparr>)"
  by (simp add: createNextRun_cases [OF neverLib_fields(2)] Let_def taskNever_ID
      serviceNever1_fields serviceNever1_latest neverLib_fields neverSchedule_def
      Unix_zeroTime wrap64_zeroTime)

lemma serviceNever_second:
  "fst (CreateNextRun neverLib serviceNever1 1 25) =
     Inr \<lparr>Created = \<lparr>TaskID = 1, RunID = 1001, Now = - 62135596800\<rparr>,
          NextDue = - 62135596800, HasQueue = False\<rparr>"
  by (simp add: CreateNextRun_regular [OF neverLib_fields(1) serviceNever1_fields(1,2)]
      serviceNever1_createNextRun Let_def)

lemma serviceNever2_inflight:
  "inflight serviceNever2 1 = [(1000, newRun 1000 zeroTime), (1001, newRun 1001 zeroTime)]"
  unfolding serviceNever2_def
  by (simp add: CreateNextRun_regular [OF neverLib_fields(1) serviceNever1_fields(1,2)]
      serviceNever1_createNextRun Let_def inflight_def)

text \<open>
  C2 (no duplicate ticks), at a failing input. The claim has a second \<open>CreateNextRun\<close>,
  made before the first created run finishes, compute a strictly later tick. Task 1 has
  the cron expression \<open>0 0 0 30 2 *\<close>, which parses and matches no date, so the
  schedule's next time is the zero time. Two calls with \<open>now\<close> = 25 and no
  \<open>FinishRun\<close> between them each create a run (lines 127 to 148 take the next time as
  it comes, and the zero time is before \<open>now\<close>): runs 1000 and 1001 are in flight
  together, both scheduled for the zero time.
\<close>

theorem C2_never_matching_schedule:
  "tasks serviceNever 1 = Some taskNever \<and>
   manualRuns serviceNever = [] \<and>
   inflight serviceNever 1 = [] \<and>
   cron_Parse neverLib (Task_EffectiveCron neverLib taskNever) = Inr neverSchedule \<and>
   fst (CreateNextRun neverLib serviceNever 1 25) =
     Inr \<lparr>Created = \<lparr>TaskID = 1, RunID = 1000, Now = - 62135596800\<rparr>,
          NextDue = - 62135596800, HasQueue = False\<rparr> \<and>
   serviceNever1 = snd (CreateNextRun neverLib serviceNever 1 25) \<and>
   fst (CreateNextRun neverLib serviceNever1 1 25) =
     Inr \<lparr>Created = \<lparr>TaskID = 1, RunID = 1001, Now = - 62135596800\<rparr>,
          NextDue = - 62135596800, HasQueue = False\<rparr> \<and>
   inflight (snd (CreateNextRun neverLib serviceNever1 1 25)) 1 =
     [(1000, newRun 1000 zeroTime), (1001, newRun 1001 zeroTime)] \<and>
   ScheduledFor (newRun 1000 zeroTime) = ScheduledFor (newRun 1001 zeroTime)"
  using serviceNever_fields(1,2,3) neverLib_fields(2) serviceNever_first serviceNever_second
    serviceNever2_inflight
  by (simp add: serviceNever1_def [symmetric] serviceNever2_def [symmetric] newRun_def)

section \<open>The watermark\<close>

lemma FinishRun_tracked:
  assumes task: "tasks d tid = Some t"
    and run: "map_of (inflight d tid) rid = Some r"
  shows "FinishRun X d tid rid =
    (let d1 = d\<lparr>runs := (runs d)(tid \<mapsto> AList.delete rid (inflight d tid))\<rparr>
     in if LatestCompleted t \<noteq> ''''
        then (case time_Parse_RFC3339 X (LatestCompleted t) of
                Inl err \<Rightarrow> (Inl err, d1)
              | Inr latest \<Rightarrow>
                  if ScheduledFor r > latest
                  then (Inr r,
                        finish (d1\<lparr>tasks := (tasks d)
                                  (tid \<mapsto> t\<lparr>LatestCompleted :=
                                      time_Format_RFC3339 X (ScheduledFor r)\<rparr>)\<rparr>)
                          X tid rid r)
                  else (Inr r, finish d1 X tid rid r))
        else (Inr r, finish d1 X tid rid r))"
proof (cases "runs d tid")
  case None
  with run show ?thesis by (simp add: inflight_def)
next
  case (Some rs)
  with task run show ?thesis
    by (simp add: FinishRun_def inflight_def Let_def split: sum.splits)
qed


lemma serviceRun_run: "map_of (inflight serviceRun 1) 1000 = Some (newRun 1000 10000000000)"
  by (simp add: serviceRun_fields)



lemma exampleParse_10: "time_Parse_RFC3339 exampleLib ''1970-01-01T00:00:10Z'' = Inr 10000000000"
  by (simp add: exampleLib_def exampleParse_def)

lemma exampleParse_20: "time_Parse_RFC3339 exampleLib ''1970-01-01T00:00:20Z'' = Inr 20000000000"
  by (simp add: exampleLib_def exampleParse_def)





lemma serviceFrac_fields:
  "tasks serviceFrac 1 = Some taskFrac"
  "inflight serviceFrac 1 = [(1000, newRun 1000 10700000000)]"
  by (simp_all add: serviceFrac_def CreateRun_def Let_def SetTask_def NewTaskControlService_def
      inflight_def taskFrac_def task10s_def exampleLib_def)

lemma serviceFrac_run: "map_of (inflight serviceFrac 1) 1000 = Some (newRun 1000 10700000000)"
  by (simp add: serviceFrac_fields)

text \<open>
  C3 (watermark monotonicity), at a failing input. The claim has \<open>LatestCompleted\<close>
  after every \<open>FinishRun\<close> call at least its value before the call. Task 1 is
  registered with the watermark 10.5 s and a run for 10.7 s is in flight. The run is
  after the watermark (line 213), and \<open>FinishRun\<close> stores \<^verbatim>\<open>schedFor\<close>, the run's
  tick in the RFC 3339 layout (line 204), which has whole seconds: the watermark is then
  10 s, half a second before its value before the call.
\<close>

theorem C3_watermark_moves_back:
  "tasks serviceFrac 1 = Some taskFrac \<and>
   time_Parse_RFC3339 exampleLib (LatestCompleted taskFrac) = Inr 10500000000 \<and>
   map_of (inflight serviceFrac 1) 1000 = Some (newRun 1000 10700000000) \<and>
   fst (FinishRun exampleLib serviceFrac 1 1000) = Inr (newRun 1000 10700000000) \<and>
   tasks (snd (FinishRun exampleLib serviceFrac 1 1000)) 1 =
     Some (taskFrac\<lparr>LatestCompleted := ''1970-01-01T00:00:10Z''\<rparr>) \<and>
   time_Parse_RFC3339 exampleLib ''1970-01-01T00:00:10Z'' = Inr 10000000000"
proof -
  have lc: "LatestCompleted taskFrac = ''1970-01-01T00:00:10.5Z''"
    by (simp add: taskFrac_def)
  have parsed: "time_Parse_RFC3339 exampleLib ''1970-01-01T00:00:10.5Z'' = Inr 10500000000"
    by (simp add: exampleLib_def exampleParse_def)
  have formatted: "time_Format_RFC3339 exampleLib 10700000000 = ''1970-01-01T00:00:10Z''"
    by (simp add: exampleLib_def exampleFormat_def Unix_def)
  have "fst (FinishRun exampleLib serviceFrac 1 1000) = Inr (newRun 1000 10700000000)"
    and "tasks (snd (FinishRun exampleLib serviceFrac 1 1000)) 1 =
     Some (taskFrac\<lparr>LatestCompleted := ''1970-01-01T00:00:10Z''\<rparr>)"
    by (simp_all add: FinishRun_tracked [OF serviceFrac_fields(1) serviceFrac_run] Let_def
        finish_def lc parsed formatted newRun_def)
  then show ?thesis
    using serviceFrac_fields(1) serviceFrac_run by (simp add: lc parsed exampleParse_10)
qed

section \<open>Run state transitions\<close>

lemma map_of_storeRun:
  "map_of (inflight (storeRun d taskID runID run) taskID) runID = Some run"
  by (simp add: storeRun_def inflight_def update_conv')

text \<open>
  C6 (state transitions), as amended. For a tracked run: \<open>UpdateRunState\<close> to
  \<open>RunStarted\<close> sets \<open>StartedAt\<close> to the given time; to \<open>RunSuccess\<close>,
  \<open>RunFail\<close> or \<open>RunCanceled\<close> it sets \<open>FinishedAt\<close> to the given time; to
  \<open>RunScheduled\<close> it changes no time. Each of the five is accepted (no error is
  returned) whatever the run's status was, and the run's \<open>Status\<close> becomes the name of
  the new state, \<open>scheduled\<close> included.
\<close>

theorem C6_UpdateRunState:
  assumes run: "map_of (inflight d taskID) runID = Some run"
  shows
    "(fst (UpdateRunState d taskID runID when RunStarted) = None \<and>
      map_of (inflight (snd (UpdateRunState d taskID runID when RunStarted)) taskID) runID =
        Some (run\<lparr>StartedAt := when, Status := ''started''\<rparr>)) \<and>
     (\<forall>state\<in>{RunSuccess, RunFail, RunCanceled}.
        fst (UpdateRunState d taskID runID when state) = None \<and>
        map_of (inflight (snd (UpdateRunState d taskID runID when state)) taskID) runID =
          Some (run\<lparr>FinishedAt := when, Status := RunStatus_String state\<rparr>)) \<and>
     (fst (UpdateRunState d taskID runID when RunScheduled) = None \<and>
      map_of (inflight (snd (UpdateRunState d taskID runID when RunScheduled)) taskID) runID =
        Some (run\<lparr>Status := ''scheduled''\<rparr>))"
  using run by (simp add: UpdateRunState_def map_of_storeRun setStatus_def)

lemma serviceStarted_run:
  "map_of (inflight serviceStarted 1) 1000 =
     Some ((newRun 1000 10000000000)\<lparr>StartedAt := 11000000000, Status := ''started''\<rparr>)"
  unfolding serviceStarted_def
  using serviceRun_run
  by (simp add: UpdateRunState_def map_of_storeRun setStatus_def)

theorem C6_UpdateRunState_witness:
  "map_of (inflight serviceRun 1) 1000 = Some (newRun 1000 10000000000) \<and>
   fst (UpdateRunState serviceRun 1 1000 12000000000 RunSuccess) = None \<and>
   map_of (inflight (snd (UpdateRunState serviceRun 1 1000 12000000000 RunSuccess)) 1) 1000 =
     Some ((newRun 1000 10000000000)\<lparr>FinishedAt := 12000000000, Status := ''success''\<rparr>)"
  using C6_UpdateRunState [OF serviceRun_run, of 12000000000] serviceRun_run by simp

text \<open>
  C6, counterexample to the claim as stated: run 1000 has left the scheduled state (its
  status is \<open>started\<close>); \<open>UpdateRunState\<close> to \<open>RunScheduled\<close> is accepted and the
  run's status is \<open>scheduled\<close> again.
\<close>

theorem C6_back_to_scheduled_counterexample:
  "map_of (inflight serviceStarted 1) 1000 =
     Some ((newRun 1000 10000000000)\<lparr>StartedAt := 11000000000, Status := ''started''\<rparr>) \<and>
   fst (UpdateRunState serviceStarted 1 1000 12000000000 RunScheduled) = None \<and>
   map_of (inflight (snd (UpdateRunState serviceStarted 1 1000 12000000000 RunScheduled)) 1) 1000 =
     Some ((newRun 1000 10000000000)\<lparr>StartedAt := 11000000000, Status := ''scheduled''\<rparr>)"
  using serviceStarted_run
  by (simp add: UpdateRunState_def map_of_storeRun setStatus_def)

section \<open>The manual queue is one queue\<close>

lemma serviceTwo_fields:
  "tasks serviceTwo 2 = Some task2" "manualRuns serviceTwo = []"
  by (simp_all add: serviceTwo_def SetTask_def service10s_queue task2_def)

lemma exampleLib_valid2: "ID_Valid exampleLib 2"
  by (simp add: exampleLib_def)

text \<open>
  C8 (the manual queue), as amended. The service has one manual queue, not one per
  task: \<open>SetManualRuns\<close> replaces it, \<open>ManualRuns\<close> returns all of it for every task
  ID, and \<open>CreateNextRun\<close> for any registered task with a valid ID serves its head,
  under that task's ID, whatever task the run was requested for.
\<close>

theorem C8_one_manual_queue:
  "ManualRuns (SetManualRuns d rs) taskID = rs \<and>
   (\<forall>task run rest. ID_Valid X taskID \<and> tasks d taskID = Some task \<and> rs = run # rest \<longrightarrow>
      (\<exists>rc. fst (CreateNextRun X (SetManualRuns d rs) taskID now) = Inr rc \<and>
            Created rc = \<lparr>TaskID = Task_ID task, RunID = Run_ID run,
                           Now = Unix (ScheduledFor run)\<rparr>) \<and>
      manualRuns (snd (CreateNextRun X (SetManualRuns d rs) taskID now)) = rest)"
  by (simp add: ManualRuns_def SetManualRuns_def CreateNextRun_def Let_def)

theorem C8_one_manual_queue_witness:
  "ID_Valid exampleLib 2 \<and> tasks serviceTwo 2 = Some task2 \<and>
   ManualRuns (SetManualRuns serviceTwo [manualA, manualB]) 2 = [manualA, manualB] \<and>
   (\<exists>rc. fst (CreateNextRun exampleLib (SetManualRuns serviceTwo [manualA, manualB]) 2 0) = Inr rc \<and>
         RunID (Created rc) = 77 \<and> TaskID (Created rc) = 2) \<and>
   manualRuns (snd (CreateNextRun exampleLib (SetManualRuns serviceTwo [manualA, manualB]) 2 0)) =
     [manualB]"
proof -
  note one = C8_one_manual_queue [of serviceTwo "[manualA, manualB]" 2 exampleLib 0]
  have a: "ManualRuns (SetManualRuns serviceTwo [manualA, manualB]) 2 = [manualA, manualB]"
    using one by (rule conjunct1)
  have "(\<exists>rc. fst (CreateNextRun exampleLib (SetManualRuns serviceTwo [manualA, manualB]) 2 0) =
               Inr rc \<and>
             Created rc = \<lparr>TaskID = Task_ID task2, RunID = Run_ID manualA,
                            Now = Unix (ScheduledFor manualA)\<rparr>) \<and>
        manualRuns (snd (CreateNextRun exampleLib (SetManualRuns serviceTwo [manualA, manualB]) 2 0)) =
          [manualB]"
    using one exampleLib_valid2 serviceTwo_fields(1) by blast
  then have b: "\<exists>rc. fst (CreateNextRun exampleLib (SetManualRuns serviceTwo [manualA, manualB]) 2 0) =
               Inr rc \<and> RunID (Created rc) = 77 \<and> TaskID (Created rc) = 2"
    and c: "manualRuns (snd (CreateNextRun exampleLib
               (SetManualRuns serviceTwo [manualA, manualB]) 2 0)) = [manualB]"
    by (auto simp: task2_def manualA_def newRun_def)
  from a b c show ?thesis by (simp add: exampleLib_valid2 serviceTwo_fields)
qed

text \<open>
  C8, counterexample to the claim as stated: tasks 1 and 2 are registered and no manual
  run is queued; a manual run requested for task 1 is enqueued. \<open>ManualRuns\<close> for
  task 2 now returns that run, and \<open>CreateNextRun\<close> for task 2 serves it.
\<close>

theorem C8_per_task_counterexample:
  "Run_TaskID manualA = 1 \<and>
   ManualRuns serviceTwo 2 = [] \<and>
   ManualRuns (SetManualRuns serviceTwo [manualA]) 2 = [manualA] \<and>
   fst (CreateNextRun exampleLib (SetManualRuns serviceTwo [manualA]) 2 0) =
     Inr \<lparr>Created = \<lparr>TaskID = 2, RunID = 77, Now = 5\<rparr>, NextDue = 15, HasQueue = False\<rparr>"
proof -
  have task: "tasks (SetManualRuns serviceTwo [manualA]) 2 = Some task2"
    by (simp add: SetManualRuns_def serviceTwo_fields)
  let ?d1 = "SetManualRuns serviceTwo [manualA]
               \<lparr>manualRuns := [], runs := (runs (SetManualRuns serviceTwo [manualA]))
                                   (Task_ID task2 \<mapsto> [(77, manualA)])\<rparr>"
  have empty: "runs (SetManualRuns serviceTwo [manualA]) 2 = None"
    by (simp add: SetManualRuns_def serviceTwo_def SetTask_def service10s_def
        NewTaskControlService_def)
  have t2: "Task_ID task2 = 2" "Offset task2 = ''''" "LatestCompleted task2 = ''''"
    "cron_Parse exampleLib (Task_EffectiveCron exampleLib task2) = Inr every10s"
    by (simp_all add: task2_def exampleLib_def)
  have latest: "latest_of exampleLib task2 [(77, manualA)] = 5"
    by (simp add: latest_of_def latest_step_def latest0_def t2 exampleLib_def exampleParse_def
        manualA_def newRun_def Unix_def)
  have next_due: "nextDueRun exampleLib ?d1 2 = Inr 15"
    using task
    by (simp add: nextDueRun_def t2 Let_def inflight_def latest offset_of_def
        time_Unix_def every10s_def Unix_def wrap64_def)
  have "fst (CreateNextRun exampleLib (SetManualRuns serviceTwo [manualA]) 2 0) =
     Inr \<lparr>Created = \<lparr>TaskID = 2, RunID = 77, Now = 5\<rparr>, NextDue = 15, HasQueue = False\<rparr>"
    using task empty next_due
    by (simp add: CreateNextRun_def exampleLib_valid2 Let_def inflight_def t2
        SetManualRuns_def manualA_def newRun_def Unix_def)
  then show ?thesis
    by (simp add: ManualRuns_def SetManualRuns_def serviceTwo_fields manualA_def)
qed

section \<open>Unknown tasks and runs\<close>

text \<open>
  C9 (unknown references), as amended. \<open>CreateNextRun\<close> returns the error
  \<open>invalid task id\<close> for an invalid task ID, and for a valid ID that no task is
  registered under it panics (\<open>meta not set for task with ID ...\<close>); \<open>AddRunLog\<close>
  for a run that is not tracked panics (\<open>cannot add a log to a non existent run\<close>).
  In each case the service state is left as it was.
\<close>

theorem C9_unknown_references:
  "(\<not> ID_Valid X taskID \<longrightarrow> CreateNextRun X d taskID now = (Inl ErrInvalidTaskID, d)) \<and>
   (ID_Valid X taskID \<and> tasks d taskID = None \<longrightarrow>
      CreateNextRun X d taskID now =
        (Inl (Panic (''meta not set for task with ID '' @ ID_String X taskID)), d)) \<and>
   (map_of (inflight d taskID) runID = None \<longrightarrow>
      AddRunLog X d taskID runID when log =
        (Some (Panic ''cannot add a log to a non existent run''), d))"
  by (simp add: CreateNextRun_def AddRunLog_def)

lemma service10s_unknown: "ID_Valid exampleLib 5" "tasks service10s 5 = None"
  "map_of (inflight service10s 1) 9 = None"
  by (simp_all add: exampleLib_def service10s_def SetTask_def NewTaskControlService_def
      task10s_def inflight_def)

theorem C9_unknown_references_witness:
  "ID_Valid exampleLib 5 \<and> tasks service10s 5 = None \<and> \<not> ID_Valid exampleLib 0 \<and>
   map_of (inflight service10s 1) 9 = None \<and>
   CreateNextRun exampleLib service10s 0 7 = (Inl ErrInvalidTaskID, service10s) \<and>
   CreateNextRun exampleLib service10s 5 7 =
     (Inl (Panic (''meta not set for task with ID '' @ ID_String exampleLib 5)), service10s) \<and>
   AddRunLog exampleLib service10s 1 9 7000000000 ''started'' =
     (Some (Panic ''cannot add a log to a non existent run''), service10s)"
proof -
  have invalid: "\<not> ID_Valid exampleLib 0" by (simp add: exampleLib_def)
  note unknown = C9_unknown_references [of exampleLib _ service10s 7 _ 7000000000 "''started''"]
  have a: "CreateNextRun exampleLib service10s 0 7 = (Inl ErrInvalidTaskID, service10s)"
    using unknown [of 0 9] invalid by blast
  have b: "CreateNextRun exampleLib service10s 5 7 =
     (Inl (Panic (''meta not set for task with ID '' @ ID_String exampleLib 5)), service10s)"
    using unknown [of 5 9] service10s_unknown by blast
  have c: "AddRunLog exampleLib service10s 1 9 7000000000 ''started'' =
     (Some (Panic ''cannot add a log to a non existent run''), service10s)"
    using unknown [of 1 9] service10s_unknown by blast
  from a b c show ?thesis using invalid service10s_unknown by simp
qed

text \<open>
  C9, counterexample to the claim as stated: no task is registered under the valid ID
  5, and run 9 of task 1 is not tracked. \<open>CreateNextRun\<close> for task 5 and
  \<open>AddRunLog\<close> for run 9 end in a panic, not in the error \<open>ErrRunNotFound\<close>, and
  \<open>FinishRun\<close> for run 9 ends in the panic of a nil pointer dereference.
\<close>

theorem C9_not_found_counterexample:
  "ID_Valid exampleLib 5 \<and> tasks service10s 5 = None \<and>
   map_of (inflight service10s 1) 9 = None \<and>
   fst (CreateNextRun exampleLib service10s 5 7) =
     Inl (Panic (''meta not set for task with ID '' @ ID_String exampleLib 5)) \<and>
   fst (AddRunLog exampleLib service10s 1 9 7000000000 ''started'') =
     Some (Panic ''cannot add a log to a non existent run'') \<and>
   fst (FinishRun exampleLib service10s 1 9) =
     Inl (Panic ''runtime error: invalid memory address or nil pointer dereference'')"
  using service10s_unknown
  by (simp add: CreateNextRun_def AddRunLog_def FinishRun_def Let_def)

section \<open>The effective cron expression of a task\<close>

lemma digit_char_cases:
  fixes m :: nat
  assumes "m < 10"
  shows "m = 0 \<or> m = 1 \<or> m = 2 \<or> m = 3 \<or> m = 4 \<or> m = 5 \<or> m = 6 \<or> m = 7 \<or> m = 8 \<or> m = 9"
  using assms by arith

lemma digit_char_digits:
  "is_digit (digit_char 0)" "is_digit (digit_char 1)" "is_digit (digit_char 2)"
  "is_digit (digit_char 3)" "is_digit (digit_char 4)" "is_digit (digit_char 5)"
  "is_digit (digit_char 6)" "is_digit (digit_char 7)" "is_digit (digit_char 8)"
  "is_digit (digit_char 9)"
  by code_simp+

lemma is_digit_digit_char:
  assumes "m < 10"
  shows "is_digit (digit_char m)"
  using digit_char_cases [OF assms] digit_char_digits by (elim disjE) simp_all

lemma digit_val_digit_char:
  assumes "m < 10"
  shows "digit_val (digit_char m) = m"
  using assms by (simp add: digit_val_def digit_char_def)

lemma show_nat_digits: "\<forall>c\<in>set (show_nat n). is_digit c"
proof (induction n rule: show_nat.induct)
  case (1 n)
  show ?case
  proof (cases "n < 10")
    case True
    then show ?thesis by (simp add: show_nat.simps [of n] is_digit_digit_char)
  next
    case False
    then show ?thesis
      using "1.IH" by (simp add: show_nat.simps [of n] is_digit_digit_char)
  qed
qed

lemma show_nat_not_Nil: "show_nat n \<noteq> []"
  by (simp add: show_nat.simps [of n])

lemma digits_val_snoc: "digits_val (ds @ [c]) = 10 * digits_val ds + digit_val c"
  by (simp add: digits_val_def)

lemma digits_val_show_nat: "digits_val (show_nat n) = n"
proof (induction n rule: show_nat.induct)
  case (1 n)
  show ?case
  proof (cases "n < 10")
    case True
    then show ?thesis
      by (simp add: show_nat.simps [of n] digits_val_def digit_val_digit_char)
  next
    case False
    then show ?thesis
      using "1.IH" by (simp add: show_nat.simps [of n] digits_val_snoc digit_val_digit_char)
  qed
qed

lemma unit_is_letter:
  assumes "unit_seconds u = Some k"
  shows "\<exists>c. u = [c] \<and> \<not> is_digit c"
  using assms by (auto simp: unit_seconds_def is_digit_def split: if_splits)

lemma unsigned_seconds_show_nat:
  assumes "unit_seconds u = Some k"
  shows "unsigned_seconds (show_nat n @ u) = Some (int n * k)"
proof -
  from unit_is_letter [OF assms] obtain c where u: "u = [c]" and c: "\<not> is_digit c"
    by blast
  have all: "\<forall>x\<in>set (show_nat n). is_digit x" by (rule show_nat_digits)
  have tw: "takeWhile is_digit (show_nat n @ u) = show_nat n"
    using all c u by (simp add: takeWhile_append2)
  have dw: "dropWhile is_digit (show_nat n @ u) = u"
    using all c u by (simp add: dropWhile_append2)
  show ?thesis
    using assms by (simp add: unsigned_seconds_def tw dw show_nat_not_Nil digits_val_show_nat)
qed

lemma show_nat_first:
  "\<exists>c cs. show_nat n = c # cs \<and> c \<noteq> CHR ''-''"
proof -
  obtain c cs where eq: "show_nat n = c # cs"
    using show_nat_not_Nil [of n] by (cases "show_nat n") auto
  then have "is_digit c" using show_nat_digits [of n] by simp
  then have "c \<noteq> CHR ''-''" by (auto simp: is_digit_def)
  with eq show ?thesis by blast
qed

lemma duration_seconds_show_nat:
  assumes "unit_seconds u = Some k"
  shows "duration_seconds (show_nat n @ u) = Some (int n * k)"
proof -
  from show_nat_first obtain c cs where eq: "show_nat n = c # cs" and c: "c \<noteq> CHR ''-''"
    by blast
  have "duration_seconds (show_nat n @ u) = unsigned_seconds (show_nat n @ u)"
    using c by (simp add: eq)
  then show ?thesis by (simp add: unsigned_seconds_show_nat [OF assms])
qed

lemma duration_seconds_minus:
  assumes "unit_seconds u = Some k"
  shows "duration_seconds (CHR ''-'' # show_nat n @ u) = Some (- (int n * k))"
  by (simp add: unsigned_seconds_show_nat [OF assms])

lemma duration_seconds_examples:
  "duration_seconds ''1h'' = Some 3600"
  "duration_seconds ''1m'' = Some 60"
  "duration_seconds ''1s'' = Some 1"
  "duration_seconds ''3m'' = Some 180"
  "duration_seconds ''2h'' = Some 7200"
  "duration_seconds ''-7d'' = Some (- 604800)"
  by code_simp+

lemma show_nat_examples:
  "show_nat (Suc 0) = ''1''" "show_nat 2 = ''2''" "show_nat 3 = ''3''"
  by code_simp+

lemma TaskEffectiveCron_every:
  assumes "Cron t = ''''"
  shows "TaskEffectiveCron t =
      (case duration_seconds (Every t) of
         None \<Rightarrow> Inl ErrInvalidSchedule
       | Some secs \<Rightarrow>
           if secs \<le> 0 then Inl ErrInvalidSchedule
           else if secs < 60
             then Inr (''*/'' @ show_nat (nat secs) @ '' */1 */1 * * * *'')
           else if secs < 3600
             then Inr (''0 */'' @ show_nat (nat (secs div 60)) @ '' */1 * * * *'')
           else Inr (''0 0 */'' @ show_nat (nat (secs div 3600)) @ '' * * * *''))"
  using assms by (simp add: TaskEffectiveCron_def)

lemma unit_seconds_units:
  assumes "(u, k) \<in> set [(''s'', 1 :: int), (''m'', 60), (''h'', 3600), (''d'', 86400), (''w'', 604800)]"
  shows "unit_seconds u = Some k" "0 < k"
  using assms by (auto simp: unit_seconds_def)

lemma band_units:
  assumes "(u, k) \<in> set [(''s'', 1), (''m'', 60), (''h'', 3600)]"
  shows "unit_seconds u = Some k"
  using assms by (auto simp: unit_seconds_def)

text \<open>
  C7 (schedule resolution). For every task: a non-empty \<open>Cron\<close> is returned as it
  is, whatever \<open>Every\<close> is. With an empty \<open>Cron\<close>: an empty \<open>Every\<close> is an invalid
  schedule; so is every negative \<open>Every\<close> (a minus sign, a decimal magnitude and a
  unit among \<open>s\<close>, \<open>m\<close>, \<open>h\<close>, \<open>d\<close>, \<open>w\<close>) and every \<open>Every\<close> of zero
  length; and a positive \<open>Every\<close> written in seconds, minutes or hours is mapped by
  its magnitude, whatever its unit: below 60 s to the second field, from 60 s and below
  3600 s to the minute field when it is a whole number of minutes, from 3600 s to the
  hour field when it is a whole number of hours, the other six fields being as in the
  test table. In particular \<open>1h\<close>, \<open>1m\<close>, \<open>1s\<close>, \<open>3m\<close> and \<open>2h\<close> give the
  expressions of the test table, and \<open>-7d\<close> is an invalid schedule.
\<close>

theorem C7_EffectiveCron:
  "(Cron t \<noteq> '''' \<longrightarrow> TaskEffectiveCron t = Inr (Cron t)) \<and>
   (Cron t = '''' \<longrightarrow>
      (Every t = '''' \<longrightarrow> TaskEffectiveCron t = Inl ErrInvalidSchedule) \<and>
      (\<forall>n. \<forall>(u, k)\<in>set [(''s'', 1 :: int), (''m'', 60), (''h'', 3600), (''d'', 86400), (''w'', 604800)].
         (Every t = CHR ''-'' # show_nat n @ u \<longrightarrow>
            TaskEffectiveCron t = Inl ErrInvalidSchedule) \<and>
         (Every t = show_nat n @ u \<and> n = 0 \<longrightarrow>
            TaskEffectiveCron t = Inl ErrInvalidSchedule)) \<and>
      (\<forall>n. \<forall>(u, k)\<in>set [(''s'', 1), (''m'', 60), (''h'', 3600)].
         Every t = show_nat n @ u \<longrightarrow>
           (0 < int n * k \<and> int n * k < 60 \<longrightarrow>
              TaskEffectiveCron t =
                Inr (''*/'' @ show_nat (nat (int n * k)) @ '' */1 */1 * * * *'')) \<and>
           (60 \<le> int n * k \<and> int n * k < 3600 \<and> 60 dvd int n * k \<longrightarrow>
              TaskEffectiveCron t =
                Inr (''0 */'' @ show_nat (nat (int n * k div 60)) @ '' */1 * * * *'')) \<and>
           (3600 \<le> int n * k \<and> 3600 dvd int n * k \<longrightarrow>
              TaskEffectiveCron t =
                Inr (''0 0 */'' @ show_nat (nat (int n * k div 3600)) @ '' * * * *''))) \<and>
      (Every t = ''1h'' \<longrightarrow> TaskEffectiveCron t = Inr ''0 0 */1 * * * *'') \<and>
      (Every t = ''1m'' \<longrightarrow> TaskEffectiveCron t = Inr ''0 */1 */1 * * * *'') \<and>
      (Every t = ''1s'' \<longrightarrow> TaskEffectiveCron t = Inr ''*/1 */1 */1 * * * *'') \<and>
      (Every t = ''3m'' \<longrightarrow> TaskEffectiveCron t = Inr ''0 */3 */1 * * * *'') \<and>
      (Every t = ''2h'' \<longrightarrow> TaskEffectiveCron t = Inr ''0 0 */2 * * * *'') \<and>
      (Every t = ''-7d'' \<longrightarrow> TaskEffectiveCron t = Inl ErrInvalidSchedule))"
proof -
  have cron: "Cron t \<noteq> '''' \<longrightarrow> TaskEffectiveCron t = Inr (Cron t)"
    by (simp add: TaskEffectiveCron_def)
  note every = TaskEffectiveCron_every
  have empty: "TaskEffectiveCron t = Inl ErrInvalidSchedule"
    if "Cron t = ''''" "Every t = ''''"
    using that by (simp add: every)
  have negative: "TaskEffectiveCron t = Inl ErrInvalidSchedule"
    if "Cron t = ''''" "Every t = CHR ''-'' # show_nat n @ u"
      "(u, k) \<in> set [(''s'', 1 :: int), (''m'', 60), (''h'', 3600), (''d'', 86400), (''w'', 604800)]"
    for n :: nat and u :: string and k :: int
  proof -
    have "duration_seconds (Every t) = Some (- (int n * k))"
      using that(2) duration_seconds_minus [OF unit_seconds_units(1) [OF that(3)]]
      by simp
    moreover have "- (int n * k) \<le> 0"
      using unit_seconds_units(2) [OF that(3)] by simp
    ultimately show ?thesis using that(1) by (simp add: every)
  qed
  have zero: "TaskEffectiveCron t = Inl ErrInvalidSchedule"
    if "Cron t = ''''" "Every t = show_nat n @ u" "n = 0"
      "(u, k) \<in> set [(''s'', 1 :: int), (''m'', 60), (''h'', 3600), (''d'', 86400), (''w'', 604800)]"
    for n :: nat and u :: string and k :: int
  proof -
    have "duration_seconds (Every t) = Some (int n * k)"
      using that(2) duration_seconds_show_nat [OF unit_seconds_units(1) [OF that(4)]]
      by simp
    then show ?thesis using that(1,3) by (simp add: every)
  qed
  have parsed: "duration_seconds (Every t) = Some (int n * k)"
    if "Every t = show_nat n @ u" "(u, k) \<in> set [(''s'', 1), (''m'', 60), (''h'', 3600)]"
    for n :: nat and u :: string and k :: int
    using that(1) duration_seconds_show_nat [OF band_units [OF that(2)]] by simp
  have seconds: "TaskEffectiveCron t =
        Inr (''*/'' @ show_nat (nat (int n * k)) @ '' */1 */1 * * * *'')"
    if "Cron t = ''''" "Every t = show_nat n @ u"
      "(u, k) \<in> set [(''s'', 1), (''m'', 60), (''h'', 3600)]"
      "0 < int n * k" "int n * k < 60"
    for n :: nat and u :: string and k :: int
    using that(1,4,5) by (simp add: every parsed [OF that(2,3)])
  have minutes: "TaskEffectiveCron t =
        Inr (''0 */'' @ show_nat (nat (int n * k div 60)) @ '' */1 * * * *'')"
    if "Cron t = ''''" "Every t = show_nat n @ u"
      "(u, k) \<in> set [(''s'', 1), (''m'', 60), (''h'', 3600)]"
      "60 \<le> int n * k" "int n * k < 3600"
    for n :: nat and u :: string and k :: int
    using that(1,4,5) by (simp add: every parsed [OF that(2,3)])
  have hours: "TaskEffectiveCron t =
        Inr (''0 0 */'' @ show_nat (nat (int n * k div 3600)) @ '' * * * *'')"
    if "Cron t = ''''" "Every t = show_nat n @ u"
      "(u, k) \<in> set [(''s'', 1), (''m'', 60), (''h'', 3600)]"
      "3600 \<le> int n * k"
    for n :: nat and u :: string and k :: int
    using that(1,4) by (simp add: every parsed [OF that(2,3)])
  have ex1: "Every t = ''1h'' \<longrightarrow> TaskEffectiveCron t = Inr ''0 0 */1 * * * *''"
    if "Cron t = ''''"
    using that by (simp add: every duration_seconds_examples show_nat_examples
        del: duration_seconds.simps)
  have ex2: "Every t = ''1m'' \<longrightarrow> TaskEffectiveCron t = Inr ''0 */1 */1 * * * *''"
    if "Cron t = ''''"
    using that by (simp add: every duration_seconds_examples show_nat_examples
        del: duration_seconds.simps)
  have ex3: "Every t = ''1s'' \<longrightarrow> TaskEffectiveCron t = Inr ''*/1 */1 */1 * * * *''"
    if "Cron t = ''''"
    using that by (simp add: every duration_seconds_examples show_nat_examples
        del: duration_seconds.simps)
  have ex4: "Every t = ''3m'' \<longrightarrow> TaskEffectiveCron t = Inr ''0 */3 */1 * * * *''"
    if "Cron t = ''''"
    using that by (simp add: every duration_seconds_examples show_nat_examples
        del: duration_seconds.simps)
  have ex5: "Every t = ''2h'' \<longrightarrow> TaskEffectiveCron t = Inr ''0 0 */2 * * * *''"
    if "Cron t = ''''"
    using that by (simp add: every duration_seconds_examples show_nat_examples
        del: duration_seconds.simps)
  have ex6: "Every t = ''-7d'' \<longrightarrow> TaskEffectiveCron t = Inl ErrInvalidSchedule"
    if "Cron t = ''''"
    using that by (simp add: every duration_seconds_examples del: duration_seconds.simps)
  have rejected:
    "\<forall>n. \<forall>(u, k)\<in>set [(''s'', 1 :: int), (''m'', 60), (''h'', 3600), (''d'', 86400), (''w'', 604800)].
         (Every t = CHR ''-'' # show_nat n @ u \<longrightarrow>
            TaskEffectiveCron t = Inl ErrInvalidSchedule) \<and>
         (Every t = show_nat n @ u \<and> n = 0 \<longrightarrow>
            TaskEffectiveCron t = Inl ErrInvalidSchedule)"
    if c: "Cron t = ''''"
  proof (intro allI ballI)
    fix n :: nat and x :: "string \<times> int"
    assume mem: "x \<in> set [(''s'', 1 :: int), (''m'', 60), (''h'', 3600), (''d'', 86400), (''w'', 604800)]"
    obtain u k where x: "x = (u, k)" by (cases x)
    note mem' = mem [unfolded x]
    have "Every t = CHR ''-'' # show_nat n @ u \<longrightarrow>
            TaskEffectiveCron t = Inl ErrInvalidSchedule"
      using negative [OF c _ mem'] by blast
    moreover have "Every t = show_nat n @ u \<and> n = 0 \<longrightarrow>
            TaskEffectiveCron t = Inl ErrInvalidSchedule"
      using zero [OF c _ _ mem'] by blast
    ultimately show "case x of (u, k) \<Rightarrow>
         (Every t = CHR ''-'' # show_nat n @ u \<longrightarrow>
            TaskEffectiveCron t = Inl ErrInvalidSchedule) \<and>
         (Every t = show_nat n @ u \<and> n = 0 \<longrightarrow>
            TaskEffectiveCron t = Inl ErrInvalidSchedule)"
      unfolding x prod.case by (rule conjI)
  qed
  have bands:
    "\<forall>n. \<forall>(u, k)\<in>set [(''s'', 1), (''m'', 60), (''h'', 3600)].
         Every t = show_nat n @ u \<longrightarrow>
           (0 < int n * k \<and> int n * k < 60 \<longrightarrow>
              TaskEffectiveCron t =
                Inr (''*/'' @ show_nat (nat (int n * k)) @ '' */1 */1 * * * *'')) \<and>
           (60 \<le> int n * k \<and> int n * k < 3600 \<and> 60 dvd int n * k \<longrightarrow>
              TaskEffectiveCron t =
                Inr (''0 */'' @ show_nat (nat (int n * k div 60)) @ '' */1 * * * *'')) \<and>
           (3600 \<le> int n * k \<and> 3600 dvd int n * k \<longrightarrow>
              TaskEffectiveCron t =
                Inr (''0 0 */'' @ show_nat (nat (int n * k div 3600)) @ '' * * * *''))"
    if c: "Cron t = ''''"
  proof (intro allI ballI)
    fix n :: nat and x :: "string \<times> int"
    assume mem: "x \<in> set [(''s'', 1), (''m'', 60), (''h'', 3600)]"
    obtain u k where x: "x = (u, k)" by (cases x)
    note mem' = mem [unfolded x]
    have "Every t = show_nat n @ u \<longrightarrow>
           (0 < int n * k \<and> int n * k < 60 \<longrightarrow>
              TaskEffectiveCron t =
                Inr (''*/'' @ show_nat (nat (int n * k)) @ '' */1 */1 * * * *'')) \<and>
           (60 \<le> int n * k \<and> int n * k < 3600 \<and> 60 dvd int n * k \<longrightarrow>
              TaskEffectiveCron t =
                Inr (''0 */'' @ show_nat (nat (int n * k div 60)) @ '' */1 * * * *'')) \<and>
           (3600 \<le> int n * k \<and> 3600 dvd int n * k \<longrightarrow>
              TaskEffectiveCron t =
                Inr (''0 0 */'' @ show_nat (nat (int n * k div 3600)) @ '' * * * *''))"
    proof (intro impI conjI)
      assume e: "Every t = show_nat n @ u"
      show "TaskEffectiveCron t =
                Inr (''*/'' @ show_nat (nat (int n * k)) @ '' */1 */1 * * * *'')"
        if "0 < int n * k \<and> int n * k < 60"
        using that seconds [OF c e mem'] by blast
      show "TaskEffectiveCron t =
                Inr (''0 */'' @ show_nat (nat (int n * k div 60)) @ '' */1 * * * *'')"
        if "60 \<le> int n * k \<and> int n * k < 3600 \<and> 60 dvd int n * k"
        using that minutes [OF c e mem'] by blast
      show "TaskEffectiveCron t =
                Inr (''0 0 */'' @ show_nat (nat (int n * k div 3600)) @ '' * * * *'')"
        if "3600 \<le> int n * k \<and> 3600 dvd int n * k"
        using that hours [OF c e mem'] by blast
    qed
    then show "case x of (u, k) \<Rightarrow>
         Every t = show_nat n @ u \<longrightarrow>
           (0 < int n * k \<and> int n * k < 60 \<longrightarrow>
              TaskEffectiveCron t =
                Inr (''*/'' @ show_nat (nat (int n * k)) @ '' */1 */1 * * * *'')) \<and>
           (60 \<le> int n * k \<and> int n * k < 3600 \<and> 60 dvd int n * k \<longrightarrow>
              TaskEffectiveCron t =
                Inr (''0 */'' @ show_nat (nat (int n * k div 60)) @ '' */1 * * * *'')) \<and>
           (3600 \<le> int n * k \<and> 3600 dvd int n * k \<longrightarrow>
              TaskEffectiveCron t =
                Inr (''0 0 */'' @ show_nat (nat (int n * k div 3600)) @ '' * * * *''))"
      unfolding x prod.case .
  qed
  have "Cron t = '''' \<longrightarrow>
      (Every t = '''' \<longrightarrow> TaskEffectiveCron t = Inl ErrInvalidSchedule) \<and>
      (\<forall>n. \<forall>(u, k)\<in>set [(''s'', 1 :: int), (''m'', 60), (''h'', 3600), (''d'', 86400), (''w'', 604800)].
         (Every t = CHR ''-'' # show_nat n @ u \<longrightarrow>
            TaskEffectiveCron t = Inl ErrInvalidSchedule) \<and>
         (Every t = show_nat n @ u \<and> n = 0 \<longrightarrow>
            TaskEffectiveCron t = Inl ErrInvalidSchedule)) \<and>
      (\<forall>n. \<forall>(u, k)\<in>set [(''s'', 1), (''m'', 60), (''h'', 3600)].
         Every t = show_nat n @ u \<longrightarrow>
           (0 < int n * k \<and> int n * k < 60 \<longrightarrow>
              TaskEffectiveCron t =
                Inr (''*/'' @ show_nat (nat (int n * k)) @ '' */1 */1 * * * *'')) \<and>
           (60 \<le> int n * k \<and> int n * k < 3600 \<and> 60 dvd int n * k \<longrightarrow>
              TaskEffectiveCron t =
                Inr (''0 */'' @ show_nat (nat (int n * k div 60)) @ '' */1 * * * *'')) \<and>
           (3600 \<le> int n * k \<and> 3600 dvd int n * k \<longrightarrow>
              TaskEffectiveCron t =
                Inr (''0 0 */'' @ show_nat (nat (int n * k div 3600)) @ '' * * * *''))) \<and>
      (Every t = ''1h'' \<longrightarrow> TaskEffectiveCron t = Inr ''0 0 */1 * * * *'') \<and>
      (Every t = ''1m'' \<longrightarrow> TaskEffectiveCron t = Inr ''0 */1 */1 * * * *'') \<and>
      (Every t = ''1s'' \<longrightarrow> TaskEffectiveCron t = Inr ''*/1 */1 */1 * * * *'') \<and>
      (Every t = ''3m'' \<longrightarrow> TaskEffectiveCron t = Inr ''0 */3 */1 * * * *'') \<and>
      (Every t = ''2h'' \<longrightarrow> TaskEffectiveCron t = Inr ''0 0 */2 * * * *'') \<and>
      (Every t = ''-7d'' \<longrightarrow> TaskEffectiveCron t = Inl ErrInvalidSchedule)"
  proof
    assume c: "Cron t = ''''"
    have e0: "Every t = '''' \<longrightarrow> TaskEffectiveCron t = Inl ErrInvalidSchedule"
      using empty [OF c] by blast
    from e0 rejected [OF c] bands [OF c] ex1 [OF c] ex2 [OF c] ex3 [OF c] ex4 [OF c]
      ex5 [OF c] ex6 [OF c]
    show "(Every t = '''' \<longrightarrow> TaskEffectiveCron t = Inl ErrInvalidSchedule) \<and>
      (\<forall>n. \<forall>(u, k)\<in>set [(''s'', 1 :: int), (''m'', 60), (''h'', 3600), (''d'', 86400), (''w'', 604800)].
         (Every t = CHR ''-'' # show_nat n @ u \<longrightarrow>
            TaskEffectiveCron t = Inl ErrInvalidSchedule) \<and>
         (Every t = show_nat n @ u \<and> n = 0 \<longrightarrow>
            TaskEffectiveCron t = Inl ErrInvalidSchedule)) \<and>
      (\<forall>n. \<forall>(u, k)\<in>set [(''s'', 1), (''m'', 60), (''h'', 3600)].
         Every t = show_nat n @ u \<longrightarrow>
           (0 < int n * k \<and> int n * k < 60 \<longrightarrow>
              TaskEffectiveCron t =
                Inr (''*/'' @ show_nat (nat (int n * k)) @ '' */1 */1 * * * *'')) \<and>
           (60 \<le> int n * k \<and> int n * k < 3600 \<and> 60 dvd int n * k \<longrightarrow>
              TaskEffectiveCron t =
                Inr (''0 */'' @ show_nat (nat (int n * k div 60)) @ '' */1 * * * *'')) \<and>
           (3600 \<le> int n * k \<and> 3600 dvd int n * k \<longrightarrow>
              TaskEffectiveCron t =
                Inr (''0 0 */'' @ show_nat (nat (int n * k div 3600)) @ '' * * * *''))) \<and>
      (Every t = ''1h'' \<longrightarrow> TaskEffectiveCron t = Inr ''0 0 */1 * * * *'') \<and>
      (Every t = ''1m'' \<longrightarrow> TaskEffectiveCron t = Inr ''0 */1 */1 * * * *'') \<and>
      (Every t = ''1s'' \<longrightarrow> TaskEffectiveCron t = Inr ''*/1 */1 */1 * * * *'') \<and>
      (Every t = ''3m'' \<longrightarrow> TaskEffectiveCron t = Inr ''0 */3 */1 * * * *'') \<and>
      (Every t = ''2h'' \<longrightarrow> TaskEffectiveCron t = Inr ''0 0 */2 * * * *'') \<and>
      (Every t = ''-7d'' \<longrightarrow> TaskEffectiveCron t = Inl ErrInvalidSchedule)"
      by (intro conjI)
  qed
  with cron show ?thesis by (rule conjI)
qed

theorem C7_EffectiveCron_witness:
  "Cron (testTask ''7h'' ''* * * * *'') \<noteq> '''' \<and>
   TaskEffectiveCron (testTask ''7h'' ''* * * * *'') = Inr ''* * * * *'' \<and>
   Cron (testTask ''120s'' '''') = '''' \<and>
   Every (testTask ''120s'' '''') = show_nat 120 @ ''s'' \<and>
   TaskEffectiveCron (testTask ''120s'' '''') = Inr ''0 */2 */1 * * * *'' \<and>
   Every (testTask ''-30s'' '''') = CHR ''-'' # show_nat 30 @ ''s'' \<and>
   TaskEffectiveCron (testTask ''-30s'' '''') = Inl ErrInvalidSchedule \<and>
   TaskEffectiveCron (testTask ''3m'' '''') = Inr ''0 */3 */1 * * * *'' \<and>
   TaskEffectiveCron (testTask ''-7d'' '''') = Inl ErrInvalidSchedule"
proof -
  have s120: "show_nat 120 = ''120''" by code_simp
  have s30: "show_nat 30 = ''30''" by code_simp
  have s2: "show_nat 2 = ''2''" by code_simp
  have c1: "Cron (testTask ''7h'' ''* * * * *'') \<noteq> ''''" by (simp add: testTask_def)
  have a: "TaskEffectiveCron (testTask ''7h'' ''* * * * *'') = Inr ''* * * * *''"
    using C7_EffectiveCron [of "testTask ''7h'' ''* * * * *''", THEN conjunct1] c1
    by (simp add: testTask_def)
  have c2: "Cron (testTask ''120s'' '''') = ''''" by (simp add: testTask_def)
  have e2: "Every (testTask ''120s'' '''') = show_nat 120 @ ''s''"
    by (simp add: testTask_def s120)
  note r2 = C7_EffectiveCron [of "testTask ''120s'' ''''", THEN conjunct2, THEN mp, OF c2]
  note bands = r2 [THEN conjunct2, THEN conjunct2, THEN conjunct1, THEN spec, of 120]
  have mem3: "(''s'', 1 :: int) \<in> set [(''s'', 1), (''m'', 60), (''h'', 3600)]" by simp
  have "Every (testTask ''120s'' '''') = show_nat 120 @ ''s'' \<longrightarrow>
      (60 \<le> int 120 * 1 \<and> int 120 * 1 < 3600 \<and> 60 dvd int 120 * 1 \<longrightarrow>
         TaskEffectiveCron (testTask ''120s'' '''') =
           Inr (''0 */'' @ show_nat (nat (int 120 * 1 div 60)) @ '' */1 * * * *''))"
    using bspec [OF bands mem3] unfolding prod.case by blast
  with e2 have "60 \<le> int 120 * 1 \<and> int 120 * 1 < 3600 \<and> 60 dvd int 120 * 1 \<longrightarrow>
         TaskEffectiveCron (testTask ''120s'' '''') =
           Inr (''0 */'' @ show_nat (nat (int 120 * 1 div 60)) @ '' */1 * * * *'')"
    by (rule rev_mp)
  then have b: "TaskEffectiveCron (testTask ''120s'' '''') = Inr ''0 */2 */1 * * * *''"
    by (simp add: s2)
  have c3: "Cron (testTask ''-30s'' '''') = ''''" by (simp add: testTask_def)
  have e3: "Every (testTask ''-30s'' '''') = CHR ''-'' # show_nat 30 @ ''s''"
    by (simp add: testTask_def s30)
  note r3 = C7_EffectiveCron [of "testTask ''-30s'' ''''", THEN conjunct2, THEN mp, OF c3]
  note rejected = r3 [THEN conjunct2, THEN conjunct1, THEN spec, of 30]
  have mem5: "(''s'', 1 :: int) \<in>
      set [(''s'', 1), (''m'', 60), (''h'', 3600), (''d'', 86400), (''w'', 604800)]" by simp
  have "Every (testTask ''-30s'' '''') = CHR ''-'' # show_nat 30 @ ''s'' \<longrightarrow>
      TaskEffectiveCron (testTask ''-30s'' '''') = Inl ErrInvalidSchedule"
    using bspec [OF rejected mem5] unfolding prod.case by blast
  with e3 have n: "TaskEffectiveCron (testTask ''-30s'' '''') = Inl ErrInvalidSchedule"
    by (rule rev_mp)
  have c4: "Cron (testTask ''3m'' '''') = ''''" by (simp add: testTask_def)
  have e4: "Every (testTask ''3m'' '''') = ''3m''" by (simp add: testTask_def)
  note r4 = C7_EffectiveCron [of "testTask ''3m'' ''''", THEN conjunct2, THEN mp, OF c4]
  have m: "TaskEffectiveCron (testTask ''3m'' '''') = Inr ''0 */3 */1 * * * *''"
    using r4 [THEN conjunct2, THEN conjunct2, THEN conjunct2, THEN conjunct2,
        THEN conjunct2, THEN conjunct2, THEN conjunct1] e4 by (rule mp)
  have c5: "Cron (testTask ''-7d'' '''') = ''''" by (simp add: testTask_def)
  have e5: "Every (testTask ''-7d'' '''') = ''-7d''" by (simp add: testTask_def)
  note r5 = C7_EffectiveCron [of "testTask ''-7d'' ''''", THEN conjunct2, THEN mp, OF c5]
  have d: "TaskEffectiveCron (testTask ''-7d'' '''') = Inl ErrInvalidSchedule"
    using r5 [THEN conjunct2, THEN conjunct2, THEN conjunct2, THEN conjunct2,
        THEN conjunct2, THEN conjunct2, THEN conjunct2, THEN conjunct2] e5 by (rule mp)
  from c1 a c2 e2 b e3 n m d show ?thesis by (intro conjI)
qed

end
